theory Spec2Isabelle
  imports Main "HOL-Library.Word" "HOL-Library.Sublist"
begin

section \<open>Text and bytes\<close>

text \<open>
  A Python \<open>str\<close> is a sequence of Unicode code points, modelled as a list of natural
  numbers; the contents of a file on disk are bytes. ASCII literals of the source are
  written with \<open>asc\<close>; the other literals are given by code point.
\<close>

type_synonym ustr = "nat list"
type_synonym bytes = "8 word list"

definition asc :: "string \<Rightarrow> ustr" where
  "asc s = map of_char s"

text \<open>
  A str that came out of \<open>json.load\<close> may hold lone surrogates (\<open>"\ud800"\<close> is
  valid JSON). UTF-8 encodes scalar values only: writing such a str to the output file,
  printing it on a UTF-8 standard output with the default strict error handler, or
  passing it to the file system as a path raises \<open>UnicodeEncodeError\<close>.
\<close>

definition scalar :: "nat \<Rightarrow> bool" where
  "scalar c = (c < 0xD800 \<or> (0xE000 \<le> c \<and> c < 0x110000))"

definition encodable :: "ustr \<Rightarrow> bool" where
  "encodable s = list_all scalar s"

text \<open>Decimal rendering of a number inside an f-string (\<open>{index}\<close>).\<close>

fun dec :: "nat \<Rightarrow> ustr" where
  "dec n = (if n < 10 then [48 + n] else dec (n div 10) @ [48 + n mod 10])"

declare dec.simps [simp del]

text \<open>
  \<open>str.strip()\<close> removes leading and trailing white space; \<open>py_isspace\<close> lists
  the code points Python counts as white space.
\<close>

definition py_isspace :: "nat \<Rightarrow> bool" where
  "py_isspace c =
     ((0x09 \<le> c \<and> c \<le> 0x0D) \<or> (0x1C \<le> c \<and> c \<le> 0x20) \<or> c = 0x85 \<or> c = 0xA0
      \<or> c = 0x1680 \<or> (0x2000 \<le> c \<and> c \<le> 0x200A) \<or> c = 0x2028 \<or> c = 0x2029
      \<or> c = 0x202F \<or> c = 0x205F \<or> c = 0x3000)"

definition strip :: "ustr \<Rightarrow> ustr" where
  "strip s = rev (dropWhile py_isspace (rev (dropWhile py_isspace s)))"

text \<open>
  A file opened with \<open>open(path, 'r', encoding=...)\<close> is read with universal
  newlines: \<open>\r\n\<close> and a lone \<open>\r\<close> both arrive as \<open>\n\<close>.
\<close>

fun universal_newlines :: "ustr \<Rightarrow> ustr" where
  "universal_newlines [] = []"
| "universal_newlines [c] = (if c = 13 then [10] else [c])"
| "universal_newlines (c # d # cs) =
     (if c = 13 \<and> d = 10 then 10 # universal_newlines cs
      else if c = 13 then 10 # universal_newlines (d # cs)
      else c # universal_newlines (d # cs))"

subsection \<open>The two codecs\<close>

text \<open>
  Strict UTF-8, as Python's \<open>utf-8\<close> codec decodes it: shortest form only, no
  surrogates, nothing above U+10FFFF. \<open>None\<close> is \<open>UnicodeDecodeError\<close>.
\<close>

definition cont :: "nat \<Rightarrow> bool" where
  "cont b = (0x80 \<le> b \<and> b \<le> 0xBF)"

fun utf8_dec :: "nat list \<Rightarrow> ustr option" where
  "utf8_dec [] = Some []"
| "utf8_dec (b0 # bs) =
     (if b0 < 0x80 then map_option (Cons b0) (utf8_dec bs)
      else if 0xC2 \<le> b0 \<and> b0 \<le> 0xDF then
        (case bs of
           b1 # r \<Rightarrow>
             if cont b1
             then map_option (Cons ((b0 - 0xC0) * 0x40 + (b1 - 0x80))) (utf8_dec r)
             else None
         | _ \<Rightarrow> None)
      else if 0xE0 \<le> b0 \<and> b0 \<le> 0xEF then
        (case bs of
           b1 # b2 # r \<Rightarrow>
             if (if b0 = 0xE0 then 0xA0 else 0x80) \<le> b1
                \<and> b1 \<le> (if b0 = 0xED then 0x9F else 0xBF) \<and> cont b2
             then map_option
                    (Cons ((b0 - 0xE0) * 0x1000 + (b1 - 0x80) * 0x40 + (b2 - 0x80)))
                    (utf8_dec r)
             else None
         | _ \<Rightarrow> None)
      else if 0xF0 \<le> b0 \<and> b0 \<le> 0xF4 then
        (case bs of
           b1 # b2 # b3 # r \<Rightarrow>
             if (if b0 = 0xF0 then 0x90 else 0x80) \<le> b1
                \<and> b1 \<le> (if b0 = 0xF4 then 0x8F else 0xBF) \<and> cont b2 \<and> cont b3
             then map_option
                    (Cons ((b0 - 0xF0) * 0x40000 + (b1 - 0x80) * 0x1000
                           + (b2 - 0x80) * 0x40 + (b3 - 0x80)))
                    (utf8_dec r)
             else None
         | _ \<Rightarrow> None)
      else None)"

definition utf8_decode :: "bytes \<Rightarrow> ustr option" where
  "utf8_decode bs = utf8_dec (map unat bs)"

fun utf8_enc1 :: "nat \<Rightarrow> nat list" where
  "utf8_enc1 c =
     (if c < 0x80 then [c]
      else if c < 0x800 then [0xC0 + c div 0x40, 0x80 + c mod 0x40]
      else if c < 0x10000 then
        [0xE0 + c div 0x1000, 0x80 + (c div 0x40) mod 0x40, 0x80 + c mod 0x40]
      else
        [0xF0 + c div 0x40000, 0x80 + (c div 0x1000) mod 0x40,
         0x80 + (c div 0x40) mod 0x40, 0x80 + c mod 0x40])"

definition utf8_encode :: "ustr \<Rightarrow> bytes" where
  "utf8_encode s = map of_nat (concat (map utf8_enc1 s))"

text \<open>
  Python's \<open>gbk\<close> codec: a byte below \<open>0x80\<close> is ASCII; any other byte is the
  lead of a two-byte sequence that the codec's mapping table must know. The table is not
  part of the repository and is a parameter; like every codec of Python it yields scalar
  values only. A lead byte with nothing after it is an error whatever the table says.
\<close>

type_synonym gbk_table = "8 word \<Rightarrow> 8 word \<Rightarrow> nat option"

fun gbk_decode :: "gbk_table \<Rightarrow> bytes \<Rightarrow> ustr option" where
  "gbk_decode tbl [] = Some []"
| "gbk_decode tbl [c] = (if c < 0x80 then Some [unat c] else None)"
| "gbk_decode tbl (c # d # bs) =
     (if c < 0x80 then map_option (Cons (unat c)) (gbk_decode tbl (d # bs))
      else (case tbl c d of
              None \<Rightarrow> None
            | Some u \<Rightarrow> map_option (Cons u) (gbk_decode tbl bs)))"

datatype encoding = Utf8 | Gbk

section \<open>The file system\<close>

text \<open>
  The file system is the tree of the working directory, given by the list of the
  directory's entries; the working directory is taken to be the root, so that an
  absolute path is resolved from it as well. POSIX path resolution, without symbolic
  links, permissions or length limits; \<open>..\<close> at the top stays at the top. Names on
  disk are UTF-8 text, given by code point; a path that holds a code point UTF-8 cannot
  encode names nothing (the escapes \<open>U+DC80\<close> to \<open>U+DCFF\<close>, by which Python passes
  raw bytes to the file system, are not modelled: the run prints a chapter's name before
  it resolves its path, so it never resolves such a path).
\<close>

datatype node = File bytes | Dir "(ustr \<times> node) list"

type_synonym filesys = "(ustr \<times> node) list"

datatype exn =
    FileNotFoundError
  | NotADirectoryError
  | IsADirectoryError
  | ValueError
  | UnicodeDecodeError
  | UnicodeEncodeError
  | JSONDecodeError
  | AttributeError
  | TypeError
  | OtherError

fun split_path :: "ustr \<Rightarrow> ustr list" where
  "split_path [] = [[]]"
| "split_path (c # cs) =
     (if c = 47 then [] # split_path cs
      else (case split_path cs of
              [] \<Rightarrow> [[c]]
            | x # xs \<Rightarrow> (c # x) # xs))"

fun walk :: "node \<Rightarrow> node list \<Rightarrow> ustr list \<Rightarrow> exn + node" where
  "walk n up [] = Inr n"
| "walk (File b) up (c # cs) = Inl NotADirectoryError"
| "walk (Dir es) up (c # cs) =
     (if c = [] \<or> c = asc ''.'' then walk (Dir es) up cs
      else if c = asc ''..'' then
        (case up of
           [] \<Rightarrow> walk (Dir es) [] cs
         | p # ps \<Rightarrow> walk p ps cs)
      else (case map_of es c of
              None \<Rightarrow> Inl FileNotFoundError
            | Some m \<Rightarrow> walk m (Dir es # up) cs))"

text \<open>\<open>os.stat(path)\<close>: the node a path names, or the error raised.\<close>

definition resolve :: "filesys \<Rightarrow> ustr \<Rightarrow> exn + node" where
  "resolve fs p =
     (if \<not> encodable p then Inl UnicodeEncodeError
      else if 0 \<in> set p then Inl ValueError
      else if p = [] then Inl FileNotFoundError
      else walk (Dir fs) [] (split_path p))"

text \<open>\<open>os.path.exists\<close> answers \<open>False\<close> on every error of \<open>os.stat\<close>.\<close>

definition os_path_exists :: "filesys \<Rightarrow> ustr \<Rightarrow> bool" where
  "os_path_exists fs p = (case resolve fs p of Inl e \<Rightarrow> False | Inr n \<Rightarrow> True)"

text \<open>\<open>os.path.join(a, b)\<close> of \<open>posixpath\<close>: an absolute \<open>b\<close> replaces \<open>a\<close>.\<close>

definition os_path_join :: "ustr \<Rightarrow> ustr \<Rightarrow> ustr" where
  "os_path_join a b =
     (if b \<noteq> [] \<and> hd b = 47 then b
      else if a = [] \<or> last a = 47 then a @ b
      else a @ [47] @ b)"

text \<open>
  \<open>with open(path, 'r', encoding=enc) as f: f.read()\<close>: the whole file as text, or
  the exception raised by \<open>open\<close> or by the decoder.
\<close>

definition decode :: "gbk_table \<Rightarrow> encoding \<Rightarrow> bytes \<Rightarrow> ustr option" where
  "decode tbl enc bs = (case enc of Utf8 \<Rightarrow> utf8_decode bs | Gbk \<Rightarrow> gbk_decode tbl bs)"

definition read_text :: "gbk_table \<Rightarrow> filesys \<Rightarrow> encoding \<Rightarrow> ustr \<Rightarrow> exn + ustr" where
  "read_text tbl fs enc p =
     (case resolve fs p of
        Inl e \<Rightarrow> Inl e
      | Inr (Dir es) \<Rightarrow> Inl IsADirectoryError
      | Inr (File bs) \<Rightarrow>
          (case decode tbl enc bs of
             None \<Rightarrow> Inl UnicodeDecodeError
           | Some s \<Rightarrow> Inr (universal_newlines s)))"

text \<open>
  Writing a file of the working directory by name: \<open>open(name, 'w')\<close> creates it or
  truncates it, and fails on a directory.
\<close>

fun put_file :: "filesys \<Rightarrow> ustr \<Rightarrow> bytes \<Rightarrow> filesys" where
  "put_file [] n b = [(n, File b)]"
| "put_file ((k, v) # es) n b =
     (if k = n then (k, File b) # es else (k, v) # put_file es n b)"

definition open_w :: "filesys \<Rightarrow> ustr \<Rightarrow> exn + filesys" where
  "open_w fs n =
     (case map_of fs n of
        Some (Dir es) \<Rightarrow> Inl IsADirectoryError
      | _ \<Rightarrow> Inr (put_file fs n []))"

section \<open>The configuration document\<close>

text \<open>
  What \<open>json.load\<close> returns: \<open>None\<close>, a bool, an int, a float, a str, a list, or a
  dict with str keys in insertion order. A float is \<open>m * 2 ^ e\<close>, an infinity or NaN.
\<close>

datatype pyfloat = Finite int int | Infinite bool | NaN

datatype json =
    JNull
  | JBool bool
  | JInt int
  | JFloat pyfloat
  | JStr ustr
  | JArr "json list"
  | JObj "(ustr \<times> json) list"

text \<open>Truth value of a Python object, as \<open>if not x\<close> and \<open>if x\<close> test it.\<close>

fun truthy :: "json \<Rightarrow> bool" where
  "truthy JNull = False"
| "truthy (JBool b) = b"
| "truthy (JInt i) = (i \<noteq> 0)"
| "truthy (JFloat (Finite m e)) = (m \<noteq> 0)"
| "truthy (JFloat (Infinite s)) = True"
| "truthy (JFloat NaN) = True"
| "truthy (JStr s) = (s \<noteq> [])"
| "truthy (JArr xs) = (xs \<noteq> [])"
| "truthy (JObj kvs) = (kvs \<noteq> [])"

text \<open>\<open>d.get(k, default)\<close> on a dict.\<close>

definition dict_get :: "(ustr \<times> json) list \<Rightarrow> ustr \<Rightarrow> json \<Rightarrow> json" where
  "dict_get d k dflt = (case map_of d k of None \<Rightarrow> dflt | Some v \<Rightarrow> v)"

text \<open>\<open>len(x)\<close>: only a str, a list and a dict have a length.\<close>

fun py_len :: "json \<Rightarrow> exn + nat" where
  "py_len (JStr s) = Inr (length s)"
| "py_len (JArr xs) = Inr (length xs)"
| "py_len (JObj kvs) = Inr (length kvs)"
| "py_len v = Inl TypeError"

text \<open>
  \<open>for x in v\<close>: a list yields its elements, a str its characters (each a str of
  length one), a dict its keys.
\<close>

fun py_iter :: "json \<Rightarrow> exn + json list" where
  "py_iter (JStr s) = Inr (map (\<lambda>c. JStr [c]) s)"
| "py_iter (JArr xs) = Inr xs"
| "py_iter (JObj kvs) = Inr (map (\<lambda>kv. JStr (fst kv)) kvs)"
| "py_iter v = Inl TypeError"

text \<open>
  The library functions whose code is not part of the repository are parameters:
  the JSON parser (\<open>Inl JSONDecodeError\<close> on malformed text, any other \<open>Inl\<close> for
  another exception of the parser), the table of the GBK codec, \<open>str()\<close> of a value
  that is not a str, \<open>str(e)\<close> of an exception raised on a path, and the buffering of
  the output file object: \<open>on_disk lib t\<close> is the part of the output file that has
  reached the disk when the text \<open>t\<close> has been written to it.
\<close>

record pylib =
  json_loads :: "ustr \<Rightarrow> exn + json"
  gbk_tbl :: gbk_table
  py_str :: "json \<Rightarrow> ustr"
  exn_str :: "exn \<Rightarrow> ustr \<Rightarrow> ustr"
  on_disk :: "ustr \<Rightarrow> bytes"

text \<open>A value inside an f-string: a str is inserted as it is.\<close>

definition fmt :: "pylib \<Rightarrow> json \<Rightarrow> ustr" where
  "fmt lib v = (case v of JStr s \<Rightarrow> s | _ \<Rightarrow> py_str lib v)"

text \<open>
  \<open>datetime.now().strftime('%Y-%m-%d %H:%M:%S')\<close>; the reading of the clock is an
  input of the run. The C library's \<open>%Y\<close> is the year without padding; the other
  fields are padded to two digits.
\<close>

record datetime =
  year :: nat
  month :: nat
  day :: nat
  hour :: nat
  minute :: nat
  second :: nat
  microsecond :: nat

definition zpad :: "nat \<Rightarrow> nat \<Rightarrow> ustr" where
  "zpad w n = replicate (w - length (dec n)) 48 @ dec n"

definition strftime :: "datetime \<Rightarrow> ustr" where
  "strftime t =
     dec (year t) @ asc ''-'' @ zpad 2 (month t) @ asc ''-'' @ zpad 2 (day t)
     @ asc '' '' @ zpad 2 (hour t) @ asc '':'' @ zpad 2 (minute t) @ asc '':''
     @ zpad 2 (second t)"

section \<open>The merger\<close>

definition config_path :: ustr where
  "config_path = asc ''config.json''"

definition content_dir :: ustr where
  "content_dir = asc ''content''"

definition output_path :: ustr where
  "output_path = asc ''merged_output.md''"

text \<open>
  Standard output is the list of the messages printed, one constructor for each
  \<open>print\<close> of the source (the closing statistics are one message). Standard output
  is taken to be UTF-8 with the strict error handler: a \<open>print\<close> raises
  \<open>UnicodeEncodeError\<close> when the text it formats is not \<open>encodable\<close>, and
  succeeds otherwise.
\<close>

datatype message =
    ErrNoContentDir
  | ErrNoConfigFile
  | ErrConfigFormat
  | WarnChaptersEmpty
  | StartMerge nat
  | Processing nat nat ustr
  | FileMissingSkip
  | Success
  | EncodingErrorRetry
  | SuccessGbk
  | ReadFailed exn
  | Summary nat nat nat nat

text \<open>\<open>with open(config_path, 'r', encoding='utf-8') as f: config = json.load(f)\<close>\<close>

definition load_config :: "pylib \<Rightarrow> filesys \<Rightarrow> exn + json" where
  "load_config lib fs =
     (case read_text (gbk_tbl lib) fs Utf8 config_path of
        Inl e \<Rightarrow> Inl e
      | Inr s \<Rightarrow> json_loads lib s)"

subsection \<open>The text written\<close>

definition nl2 :: ustr where
  "nl2 = [10, 10]"

definition rule_text :: ustr where
  "rule_text = asc ''\<newline>\<newline>---\<newline>\<newline>''"

definition missing_heading :: "ustr \<Rightarrow> ustr" where
  "missing_heading filename = asc ''## '' @ [0x26A0, 0xFE0F] @ asc '' '' @ filename @ nl2"

definition missing_note :: ustr where
  "missing_note = asc ''*'' @ [0x6B64, 0x6587, 0x4EF6, 0x7F3A, 0x5931] @ asc ''*'' @ nl2"

definition provenance :: "nat \<Rightarrow> ustr \<Rightarrow> ustr" where
  "provenance index filename =
     asc ''<!-- '' @ [0x7B2C] @ asc '' '' @ dec index @ asc '' '' @ [0x7BC7] @ asc '' | ''
     @ [0x6765, 0x6E90] @ asc '': '' @ filename @ asc '' -->'' @ nl2"

definition error_heading :: "ustr \<Rightarrow> ustr" where
  "error_heading filename = asc ''## '' @ [0x274C] @ asc '' '' @ filename @ nl2"

definition error_note :: "ustr \<Rightarrow> ustr" where
  "error_note e = asc ''*'' @ [0x8BFB, 0x53D6, 0x5931, 0x8D25] @ asc '': '' @ e @ asc ''*'' @ nl2"

text \<open>
  The header is written by six or seven calls of \<open>write\<close>, listed by
  \<open>header_lines\<close>; \<open>header_text\<close> is all of them. \<open>site_info.get\<close> raises
  \<open>AttributeError\<close> when \<open>siteInfo\<close> is not a dict, before anything is written. A
  \<open>write\<close> encodes its text at once: the first text that is not \<open>encodable\<close>
  raises \<open>UnicodeEncodeError\<close>, and what was written before it stays written.
\<close>

definition header_lines :: "pylib \<Rightarrow> datetime \<Rightarrow> (ustr \<times> json) list \<Rightarrow> ustr list" where
  "header_lines lib now si =
     [asc ''# '' @ fmt lib (dict_get si (asc ''title'') (JStr (asc ''Untitled''))) @ nl2,
      asc ''**'' @ fmt lib (dict_get si (asc ''subtitle'') (JStr [])) @ asc ''**'' @ nl2]
     @ (if truthy (dict_get si (asc ''other'') JNull)
        then [asc ''*'' @ fmt lib (dict_get si (asc ''other'') JNull) @ asc ''*'' @ nl2]
        else [])
     @ [[0x4F5C, 0x8005] @ asc '': ''
          @ fmt lib (dict_get si (asc ''author'') (JStr (asc ''Unknown''))) @ nl2,
        [0x7F51, 0x7AD9] @ asc '': '' @ fmt lib (dict_get si (asc ''url'') (JStr [])) @ nl2,
        [0x751F, 0x6210, 0x65F6, 0x95F4] @ asc '': '' @ strftime now @ nl2,
        replicate 80 61 @ nl2]"

definition header_text :: "pylib \<Rightarrow> datetime \<Rightarrow> (ustr \<times> json) list \<Rightarrow> ustr" where
  "header_text lib now si = concat (header_lines lib now si)"

fun write_all :: "ustr list \<Rightarrow> ustr \<Rightarrow> exn option \<times> ustr" where
  "write_all [] written = (None, written)"
| "write_all (s # ss) written =
     (if encodable s then write_all ss (written @ s) else (Some UnicodeEncodeError, written))"

definition write_header :: "pylib \<Rightarrow> datetime \<Rightarrow> json \<Rightarrow> exn option \<times> ustr" where
  "write_header lib now site_info =
     (case site_info of
        JObj si \<Rightarrow> write_all (header_lines lib now si) []
      | _ \<Rightarrow> (Some AttributeError, []))"

subsection \<open>The loop over the chapters\<close>

record run_state =
  out :: ustr
  stdout :: "message list"
  success_count :: nat
  missing_count :: nat
  error_count :: nat

definition output_write :: "ustr \<Rightarrow> run_state \<Rightarrow> run_state" where
  "output_write s st = st\<lparr>out := out st @ s\<rparr>"

definition py_print :: "message \<Rightarrow> run_state \<Rightarrow> run_state" where
  "py_print m st = st\<lparr>stdout := stdout st @ [m]\<rparr>"

text \<open>The section of a file that was read: rule, provenance comment, content.\<close>

definition write_section :: "nat \<Rightarrow> ustr \<Rightarrow> ustr \<Rightarrow> run_state \<Rightarrow> run_state" where
  "write_section index filename content st =
     output_write nl2
       (output_write content
          (output_write (provenance index filename) (output_write rule_text st)))"

text \<open>
  One iteration. \<open>os.path.join\<close> raises \<open>TypeError\<close> on an entry that is not a str,
  and the progress line of a name that is not \<open>encodable\<close> raises
  \<open>UnicodeEncodeError\<close>, both outside every \<open>try\<close>. After the progress line the
  name is known to be encodable, so the writes of the headings and of the provenance
  comment succeed. The text of a file is decoded text and holds scalar values only, so
  the write of the content succeeds; it happens only after \<open>f.read()\<close> has returned,
  so a decoding error leaves the output as it was. The text of an exception is printed
  inside the handler that caught it; when that text is not encodable the
  \<open>print\<close> raises out of the handler, before the handler writes or counts.
\<close>

definition process_entry ::
  "pylib \<Rightarrow> filesys \<Rightarrow> nat \<Rightarrow> nat \<Rightarrow> json \<Rightarrow> run_state \<Rightarrow> exn option \<times> run_state" where
  "process_entry lib fs len index entry st =
     (case entry of
        JStr filename \<Rightarrow>
          (let file_path = os_path_join content_dir filename in
           if \<not> encodable filename then (Some UnicodeEncodeError, st)
           else
             (let st1 = py_print (Processing index len filename) st in
              if \<not> os_path_exists fs file_path then
                (let st2 = py_print FileMissingSkip st1;
                     st3 = output_write rule_text st2;
                     st4 = output_write (missing_heading filename) st3;
                     st5 = output_write missing_note st4
                 in (None, st5\<lparr>missing_count := missing_count st5 + 1\<rparr>))
              else
                (case read_text (gbk_tbl lib) fs Utf8 file_path of
                   Inr text \<Rightarrow>
                     (let st2 = write_section index filename (strip text) st1;
                          st3 = st2\<lparr>success_count := success_count st2 + 1\<rparr>
                      in (None, py_print Success st3))
                 | Inl e \<Rightarrow>
                     if e = UnicodeDecodeError then
                       (let st2 = py_print EncodingErrorRetry st1 in
                        case read_text (gbk_tbl lib) fs Gbk file_path of
                          Inr text \<Rightarrow>
                            (let st3 = write_section index filename (strip text) st2;
                                 st4 = st3\<lparr>success_count := success_count st3 + 1\<rparr>
                             in (None, py_print SuccessGbk st4))
                        | Inl e2 \<Rightarrow>
                            if \<not> encodable (exn_str lib e2 file_path) then
                              (Some UnicodeEncodeError, st2)
                            else
                              (let st3 = py_print (ReadFailed e2) st2
                               in (None, st3\<lparr>error_count := error_count st3 + 1\<rparr>)))
                     else if \<not> encodable (exn_str lib e file_path) then
                       (Some UnicodeEncodeError, st1)
                     else
                       (let st2 = py_print (ReadFailed e) st1;
                            st3 = output_write rule_text st2;
                            st4 = output_write (error_heading filename) st3;
                            st5 = output_write (error_note (exn_str lib e file_path)) st4
                        in (None, st5\<lparr>error_count := error_count st5 + 1\<rparr>)))))
      | _ \<Rightarrow> (Some TypeError, st))"

text \<open>
  The chapters are read while the output file is open: an iteration sees the file system
  in which the output file holds what has reached the disk so far.
\<close>

definition disk_view :: "pylib \<Rightarrow> filesys \<Rightarrow> run_state \<Rightarrow> filesys" where
  "disk_view lib fs st = put_file fs output_path (on_disk lib (out st))"

fun merge_loop ::
  "pylib \<Rightarrow> filesys \<Rightarrow> nat \<Rightarrow> nat \<Rightarrow> json list \<Rightarrow> run_state \<Rightarrow> exn option \<times> run_state" where
  "merge_loop lib fs len index [] st = (None, st)"
| "merge_loop lib fs len index (x # xs) st =
     (case process_entry lib (disk_view lib fs st) len index x st of
        (Some e, st') \<Rightarrow> (Some e, st')
      | (None, st') \<Rightarrow> merge_loop lib fs len (Suc index) xs st')"

subsection \<open>The whole run\<close>

datatype outcome = Aborted | Completed nat nat nat | Raised exn

record result =
  outcome :: outcome
  files :: filesys
  printed :: "message list"

text \<open>
  The body of \<open>with open(output_path, 'w', encoding='utf-8') as output_file\<close>. The
  file is created or truncated when it is opened; all that was written is on the disk
  when the block is left, also when an exception leaves it.
\<close>

definition merge_body ::
  "pylib \<Rightarrow> datetime \<Rightarrow> filesys \<Rightarrow> nat \<Rightarrow> json \<Rightarrow> json \<Rightarrow> result" where
  "merge_body lib now fs len render_order site_info =
     (case open_w fs output_path of
        Inl e \<Rightarrow> \<lparr>outcome = Raised e, files = fs, printed = [StartMerge len]\<rparr>
      | Inr fs1 \<Rightarrow>
          (case write_header lib now site_info of
             (Some e, hdr) \<Rightarrow>
               \<lparr>outcome = Raised e,
                files = put_file fs1 output_path (utf8_encode hdr),
                printed = [StartMerge len]\<rparr>
           | (None, hdr) \<Rightarrow>
               (case py_iter render_order of
                  Inl e \<Rightarrow>
                    \<lparr>outcome = Raised e,
                     files = put_file fs1 output_path (utf8_encode hdr),
                     printed = [StartMerge len]\<rparr>
                | Inr entries \<Rightarrow>
                    (case merge_loop lib fs1 len 1 entries
                            \<lparr>out = hdr, stdout = [StartMerge len], success_count = 0,
                             missing_count = 0, error_count = 0\<rparr> of
                       (Some e, st) \<Rightarrow>
                         \<lparr>outcome = Raised e,
                          files = put_file fs1 output_path (utf8_encode (out st)),
                          printed = stdout st\<rparr>
                     | (None, st) \<Rightarrow>
                         \<lparr>outcome =
                            Completed (success_count st) (missing_count st) (error_count st),
                          files = put_file fs1 output_path (utf8_encode (out st)),
                          printed =
                            stdout st
                            @ [Summary len (success_count st) (missing_count st)
                                 (error_count st)]\<rparr>))))"

definition merge_markdown_files :: "pylib \<Rightarrow> datetime \<Rightarrow> filesys \<Rightarrow> result" where
  "merge_markdown_files lib now fs =
     (if \<not> os_path_exists fs content_dir then
        \<lparr>outcome = Aborted, files = fs, printed = [ErrNoContentDir]\<rparr>
      else
        (case load_config lib fs of
           Inl e \<Rightarrow>
             if e = FileNotFoundError then
               \<lparr>outcome = Aborted, files = fs, printed = [ErrNoConfigFile]\<rparr>
             else if e = JSONDecodeError then
               \<lparr>outcome = Aborted, files = fs, printed = [ErrConfigFormat]\<rparr>
             else \<lparr>outcome = Raised e, files = fs, printed = []\<rparr>
         | Inr config \<Rightarrow>
             (case config of
                JObj cfg \<Rightarrow>
                  (let render_order = dict_get cfg (asc ''chapters'') (JArr []) in
                   if \<not> truthy render_order then
                     \<lparr>outcome = Aborted, files = fs, printed = [WarnChaptersEmpty]\<rparr>
                   else
                     (let site_info = dict_get cfg (asc ''siteInfo'') (JObj []) in
                      case py_len render_order of
                        Inl e \<Rightarrow> \<lparr>outcome = Raised e, files = fs, printed = []\<rparr>
                      | Inr len \<Rightarrow> merge_body lib now fs len render_order site_info))
              | _ \<Rightarrow> \<lparr>outcome = Raised AttributeError, files = fs, printed = []\<rparr>)))"

text \<open>
  The script has no handler at the top level: an exception that leaves
  \<open>merge_markdown_files\<close> ends the process with status 1, a return with status 0.
  Within the model, writing encodable text to the opened output file succeeds (no full
  disk, no I/O error).
\<close>

definition exit_status :: "result \<Rightarrow> nat" where
  "exit_status r = (case outcome r of Raised e \<Rightarrow> 1 | _ \<Rightarrow> 0)"

text \<open>The bytes of the output file, when the working directory holds one.\<close>

definition output_file :: "filesys \<Rightarrow> bytes option" where
  "output_file fs = (case map_of fs output_path of Some (File b) \<Rightarrow> Some b | _ \<Rightarrow> None)"

section \<open>Notions of the specification and sample inputs\<close>

subsection \<open>The header, placeholders and well-formed inputs\<close>

text \<open>
  The header as the specification words it, for a \<open>siteInfo\<close> whose values are
  strings: title (or \<open>Untitled\<close>), subtitle, the \<open>other\<close> line when the key is
  present and not empty, author (or \<open>Unknown\<close>), URL, time stamp, rule of 80 \<open>=\<close>.
\<close>

fun is_str :: "json \<Rightarrow> bool" where
  "is_str (JStr s) = True"
| "is_str v = False"


definition str_field :: "(ustr \<times> json) list \<Rightarrow> ustr \<Rightarrow> ustr option" where
  "str_field si k = (case map_of si k of Some (JStr s) \<Rightarrow> Some s | _ \<Rightarrow> None)"

text \<open>A field of \<open>siteInfo\<close> that is absent, or a string without lone surrogates.\<close>

definition field_ok :: "(ustr \<times> json) list \<Rightarrow> ustr \<Rightarrow> bool" where
  "field_ok si k =
     (case map_of si k of None \<Rightarrow> True | Some (JStr s) \<Rightarrow> encodable s | Some v \<Rightarrow> False)"

definition site_fields_ok :: "(ustr \<times> json) list \<Rightarrow> bool" where
  "site_fields_ok si =
     (field_ok si (asc ''title'') \<and> field_ok si (asc ''subtitle'') \<and> field_ok si (asc ''other'')
      \<and> field_ok si (asc ''author'') \<and> field_ok si (asc ''url''))"

definition spec_header ::
  "ustr option \<Rightarrow> ustr option \<Rightarrow> ustr option \<Rightarrow> ustr option \<Rightarrow> ustr option \<Rightarrow> ustr \<Rightarrow> ustr" where
  "spec_header title subtitle other author url stamp =
     asc ''# '' @ (case title of None \<Rightarrow> asc ''Untitled'' | Some s \<Rightarrow> s) @ [10, 10]
     @ asc ''**'' @ (case subtitle of None \<Rightarrow> [] | Some s \<Rightarrow> s) @ asc ''**'' @ [10, 10]
     @ (case other of
          None \<Rightarrow> []
        | Some s \<Rightarrow> if s = [] then [] else asc ''*'' @ s @ asc ''*'' @ [10, 10])
     @ [0x4F5C, 0x8005] @ asc '': ''
     @ (case author of None \<Rightarrow> asc ''Unknown'' | Some s \<Rightarrow> s) @ [10, 10]
     @ [0x7F51, 0x7AD9] @ asc '': '' @ (case url of None \<Rightarrow> [] | Some s \<Rightarrow> s) @ [10, 10]
     @ [0x751F, 0x6210, 0x65F6, 0x95F4] @ asc '': '' @ stamp @ [10, 10]
     @ replicate 80 61 @ [10, 10]"

text \<open>
  The placeholder of a chapter whose file is missing, as the specification words it: a
  rule, a heading that marks the file name, and the note in italics.
\<close>

definition spec_missing :: "ustr \<Rightarrow> ustr" where
  "spec_missing filename =
     asc ''\<newline>\<newline>---\<newline>\<newline>''
     @ asc ''## '' @ [0x26A0, 0xFE0F] @ asc '' '' @ filename @ asc ''\<newline>\<newline>''
     @ asc ''*'' @ [0x6B64, 0x6587, 0x4EF6, 0x7F3A, 0x5931] @ asc ''*\<newline>\<newline>''"

text \<open>A reading of the clock with a year of four digits and fields in their ranges.\<close>

definition valid_clock :: "datetime \<Rightarrow> bool" where
  "valid_clock t =
     (1000 \<le> year t \<and> year t \<le> 9999 \<and> 1 \<le> month t \<and> month t \<le> 12
      \<and> 1 \<le> day t \<and> day t \<le> 31 \<and> hour t < 24 \<and> minute t < 60 \<and> second t < 60
      \<and> microsecond t < 1000000)"

text \<open>
  The time stamp at second precision, \<open>YYYY-MM-DD HH:MM:SS\<close>, digit by digit
  (\<open>48\<close> is the digit zero, \<open>45\<close> the hyphen, \<open>58\<close> the colon).
\<close>

definition digit :: "nat \<Rightarrow> nat" where
  "digit d = 48 + d mod 10"

definition spec_stamp :: "datetime \<Rightarrow> ustr" where
  "spec_stamp t =
     [digit (year t div 1000), digit (year t div 100), digit (year t div 10), digit (year t), 45,
      digit (month t div 10), digit (month t), 45, digit (day t div 10), digit (day t), 32,
      digit (hour t div 10), digit (hour t), 58, digit (minute t div 10), digit (minute t), 58,
      digit (second t div 10), digit (second t)]"

text \<open>A relative file name: one that \<open>os.path.join\<close> puts below the content directory.\<close>

definition relative :: "ustr \<Rightarrow> bool" where
  "relative f = (f = [] \<or> hd f \<noteq> 47)"


definition site_ok :: "pylib \<Rightarrow> json \<Rightarrow> bool" where
  "site_ok lib v =
     (case v of
        JObj si \<Rightarrow>
          encodable (fmt lib (dict_get si (asc ''title'') (JStr (asc ''Untitled''))))
          \<and> encodable (fmt lib (dict_get si (asc ''subtitle'') (JStr [])))
          \<and> (if truthy (dict_get si (asc ''other'') JNull)
              then encodable (fmt lib (dict_get si (asc ''other'') JNull)) else True)
          \<and> encodable (fmt lib (dict_get si (asc ''author'') (JStr (asc ''Unknown''))))
          \<and> encodable (fmt lib (dict_get si (asc ''url'') (JStr [])))
      | _ \<Rightarrow> False)"


subsection \<open>Sample inputs\<close>

text \<open>
  A parser that knows one document: it maps the given text to the given value and
  rejects every other text. It stands for \<open>json.loads\<close> on the sample inputs.
\<close>

definition parser_of :: "ustr \<Rightarrow> json \<Rightarrow> ustr \<Rightarrow> exn + json" where
  "parser_of text doc s = (if s = text then Inr doc else Inl JSONDecodeError)"

definition ascii_bytes :: "string \<Rightarrow> bytes" where
  "ascii_bytes s = map of_char s"

text \<open>
  Five chapters: a UTF-8 file, a missing file, a directory, a GBK file (a space and
  U+4F60, bytes \<open>C4 E3\<close>) and a file that neither codec decodes. The table of the
  sample GBK codec has the one entry the sample file needs; the sample output file
  object keeps all it is given in its buffer until it is closed. \<open>demo_sections\<close> is
  what the run writes after the header.
\<close>

definition demo_text :: string where
  \<open>demo_text =
     ''{"chapters": ["a.md", "gone.md", "sub", "g.md", "bad.bin"], "siteInfo": {"title": "Notes", "other": ""}}''\<close>

definition demo_chapters :: "json list" where
  "demo_chapters =
     [JStr (asc ''a.md''), JStr (asc ''gone.md''), JStr (asc ''sub''), JStr (asc ''g.md''),
      JStr (asc ''bad.bin'')]"

definition demo_site :: "(ustr \<times> json) list" where
  "demo_site = [(asc ''title'', JStr (asc ''Notes'')), (asc ''other'', JStr [])]"

definition demo_doc :: json where
  "demo_doc = JObj [(asc ''chapters'', JArr demo_chapters), (asc ''siteInfo'', JObj demo_site)]"

definition demo_sections :: ustr where
  "demo_sections =
     rule_text @ provenance 1 (asc ''a.md'') @ asc ''Hello'' @ nl2
     @ rule_text @ missing_heading (asc ''gone.md'') @ missing_note
     @ rule_text @ error_heading (asc ''sub'') @ error_note (asc ''error'')
     @ rule_text @ provenance 4 (asc ''g.md'') @ [0x4F60] @ nl2"

definition demo_fs :: filesys where
  "demo_fs =
     [(asc ''config.json'', File (ascii_bytes demo_text)),
      (asc ''content'',
         Dir [(asc ''a.md'', File (ascii_bytes ''Hello\<newline>'')),
              (asc ''sub'', Dir []),
              (asc ''g.md'', File [0x20, 0xC4, 0xE3]),
              (asc ''bad.bin'', File [0xFF])])]"

definition demo_fs1 :: filesys where
  "demo_fs1 = demo_fs @ [(output_path, File [])]"

definition demo_tbl :: gbk_table where
  "demo_tbl c d = (if c = 0xC4 \<and> d = 0xE3 then Some 0x4F60 else None)"

definition demo_lib :: pylib where
  "demo_lib =
     \<lparr>json_loads = parser_of (asc demo_text) demo_doc, gbk_tbl = demo_tbl,
      py_str = (\<lambda>v. []), exn_str = (\<lambda>e p. asc ''error''), on_disk = (\<lambda>t. [])\<rparr>"

definition demo_now :: datetime where
  "demo_now =
     \<lparr>year = 2024, month = 1, day = 2, hour = 3, minute = 4, second = 5, microsecond = 6\<rparr>"


definition st0 :: run_state where
  "st0 = \<lparr>out = [], stdout = [], success_count = 0, missing_count = 0, error_count = 0\<rparr>"

text \<open>The same configuration, with \<open>content\<close> a regular file.\<close>

definition flat_fs :: filesys where
  "flat_fs =
     [(asc ''config.json'', File (ascii_bytes demo_text)),
      (asc ''content'', File (ascii_bytes ''x''))]"

text \<open>A configuration whose \<open>chapters\<close> is the empty list.\<close>

definition empty_text :: string where
  \<open>empty_text = ''{"chapters": []}''\<close>

definition empty_doc :: json where
  "empty_doc = JObj [(asc ''chapters'', JArr [])]"

definition empty_fs :: filesys where
  "empty_fs = [(asc ''config.json'', File (ascii_bytes empty_text)), (asc ''content'', Dir [])]"

definition empty_lib :: pylib where
  "empty_lib = demo_lib\<lparr>json_loads := parser_of (asc empty_text) empty_doc\<rparr>"






text \<open>One chapter, whose file is the single byte \<open>FF\<close>.\<close>

definition lone_text :: string where
  \<open>lone_text = ''{"chapters": ["a.md"]}''\<close>

definition lone_doc :: json where
  "lone_doc = JObj [(asc ''chapters'', JArr [JStr (asc ''a.md'')])]"

definition lone_fs :: filesys where
  "lone_fs =
     [(asc ''config.json'', File (ascii_bytes lone_text)),
      (asc ''content'', Dir [(asc ''a.md'', File [0xFF])])]"

definition lone_lib :: pylib where
  "lone_lib = demo_lib\<lparr>json_loads := parser_of (asc lone_text) lone_doc\<rparr>"

text \<open>
  A configuration whose \<open>siteInfo\<close> is \<open>null\<close>, one whose title is a lone
  surrogate, and one whose only chapter is the absolute path of the configuration file,
  the last with \<open>content\<close> a regular file.
\<close>

definition null_site_text :: string where
  \<open>null_site_text = ''{"chapters": ["a.md"], "siteInfo": null}''\<close>

definition null_site_doc :: json where
  "null_site_doc = JObj [(asc ''chapters'', JArr [JStr (asc ''a.md'')]), (asc ''siteInfo'', JNull)]"

definition null_site_fs :: filesys where
  "null_site_fs =
     [(asc ''config.json'', File (ascii_bytes null_site_text)), (asc ''content'', Dir [])]"

definition null_site_lib :: pylib where
  "null_site_lib = demo_lib\<lparr>json_loads := parser_of (asc null_site_text) null_site_doc\<rparr>"

definition lone_title_text :: string where
  \<open>lone_title_text =
     ''{"chapters": ["a.md"], "siteInfo": {"title": "'' @ [CHR 0x5C] @ ''ud800"}}''\<close>

definition lone_title_doc :: json where
  "lone_title_doc =
     JObj [(asc ''chapters'', JArr [JStr (asc ''a.md'')]),
           (asc ''siteInfo'', JObj [(asc ''title'', JStr [0xD800])])]"

definition lone_title_fs :: filesys where
  "lone_title_fs =
     [(asc ''config.json'', File (ascii_bytes lone_title_text)), (asc ''content'', Dir [])]"

definition lone_title_lib :: pylib where
  "lone_title_lib = demo_lib\<lparr>json_loads := parser_of (asc lone_title_text) lone_title_doc\<rparr>"

definition abs_text :: string where
  \<open>abs_text = ''{"chapters": ["/config.json"]}''\<close>

definition abs_doc :: json where
  "abs_doc = JObj [(asc ''chapters'', JArr [JStr (asc ''/config.json'')])]"

definition abs_fs :: filesys where
  "abs_fs =
     [(asc ''config.json'', File (ascii_bytes abs_text)),
      (asc ''content'', File (ascii_bytes ''x''))]"

definition abs_lib :: pylib where
  "abs_lib = demo_lib\<lparr>json_loads := parser_of (asc abs_text) abs_doc\<rparr>"

section \<open>Lemmas about the model\<close>

subsection \<open>Text that UTF-8 can encode\<close>

lemma encodable_Nil [simp]: "encodable []"
  by (simp add: encodable_def)

lemma encodable_append [simp]: "encodable (a @ b) = (encodable a \<and> encodable b)"
  by (simp add: encodable_def)

lemma encodable_Cons: "encodable (c # s) = (scalar c \<and> encodable s)"
  by (simp add: encodable_def)

lemma scalar_small: "c < 0xD800 \<Longrightarrow> scalar c"
  by (simp add: scalar_def)

lemma encodable_asc [simp]: "encodable (asc s)"
proof -
  have "scalar (of_char c)" for c
  proof -
    have "(of_char c :: nat) < 0xD800"
      using nat_of_char_less_256 [of c] by linarith
    then show ?thesis by (rule scalar_small)
  qed
  then show ?thesis by (simp add: encodable_def asc_def list_all_iff)
qed

lemma encodable_dec [simp]: "encodable (dec n)"
proof (induction n rule: dec.induct)
  case (1 n)
  have "n mod 10 < 10" by simp
  then have "48 + n mod 10 < 0xD800" by linarith
  then have d: "encodable [48 + n mod 10]"
    by (simp add: encodable_Cons scalar_small)
  show ?case
  proof (cases "n < 10")
    case True
    with d show ?thesis by (subst dec.simps) simp
  next
    case False
    with d "1.IH" show ?thesis by (subst dec.simps) simp
  qed
qed

lemma encodable_replicate: "scalar c \<Longrightarrow> encodable (replicate k c)"
  by (simp add: encodable_def list_all_iff)

lemma encodable_zpad [simp]: "encodable (zpad w n)"
  by (simp add: zpad_def encodable_replicate scalar_def)

lemma encodable_strftime [simp]: "encodable (strftime t)"
  by (simp add: strftime_def)

lemma encodable_nl2 [simp]: "encodable nl2"
  by (simp add: nl2_def encodable_Cons scalar_def)

lemma encodable_join: "encodable (os_path_join content_dir f) = encodable f"
  by (simp add: os_path_join_def content_dir_def encodable_Cons scalar_def)

lemma exists_encodable:
  "os_path_exists fs (os_path_join content_dir f) \<Longrightarrow> encodable f"
  by (cases "encodable f") (simp_all add: os_path_exists_def resolve_def encodable_join)

lemma resolve_encodable:
  "resolve fs (os_path_join content_dir f) = Inr n \<Longrightarrow> encodable f"
  by (cases "encodable f") (simp_all add: resolve_def encodable_join)

subsection \<open>The state of the loop\<close>

lemma output_write_sel [simp]:
  "out (output_write s st) = out st @ s"
  "stdout (output_write s st) = stdout st"
  "success_count (output_write s st) = success_count st"
  "missing_count (output_write s st) = missing_count st"
  "error_count (output_write s st) = error_count st"
  by (simp_all add: output_write_def)

lemma py_print_sel [simp]:
  "out (py_print m st) = out st"
  "stdout (py_print m st) = stdout st @ [m]"
  "success_count (py_print m st) = success_count st"
  "missing_count (py_print m st) = missing_count st"
  "error_count (py_print m st) = error_count st"
  by (simp_all add: py_print_def)

lemma write_section_sel [simp]:
  "out (write_section i f c st) = out st @ rule_text @ provenance i f @ c @ nl2"
  "stdout (write_section i f c st) = stdout st"
  "success_count (write_section i f c st) = success_count st"
  "missing_count (write_section i f c st) = missing_count st"
  "error_count (write_section i f c st) = error_count st"
  by (simp_all add: write_section_def)

subsection \<open>The ways through one iteration\<close>

lemma process_entry_not_str:
  "\<not> is_str x \<Longrightarrow> process_entry lib fs len i x st = (Some TypeError, st)"
  by (cases x) (auto simp: process_entry_def)

lemma process_entry_unencodable:
  "\<not> encodable f \<Longrightarrow> process_entry lib fs len i (JStr f) st = (Some UnicodeEncodeError, st)"
  by (simp add: process_entry_def)

lemma process_entry_missing:
  assumes "encodable f" and "\<not> os_path_exists fs (os_path_join content_dir f)"
  shows "process_entry lib fs len i (JStr f) st =
    (None, st\<lparr>out := out st @ rule_text @ missing_heading f @ missing_note,
               stdout := stdout st @ [Processing i len f, FileMissingSkip],
               missing_count := missing_count st + 1\<rparr>)"
  using assms by (simp add: process_entry_def Let_def output_write_def py_print_def)

lemma process_entry_read:
  assumes "os_path_exists fs (os_path_join content_dir f)"
    and "read_text (gbk_tbl lib) fs Utf8 (os_path_join content_dir f) = Inr c"
  shows "process_entry lib fs len i (JStr f) st =
    (None, st\<lparr>out := out st @ rule_text @ provenance i f @ strip c @ nl2,
               stdout := stdout st @ [Processing i len f, Success],
               success_count := success_count st + 1\<rparr>)"
  using assms exists_encodable [OF assms(1)]
  by (simp add: process_entry_def Let_def output_write_def py_print_def write_section_def)

lemma process_entry_gbk:
  assumes "os_path_exists fs (os_path_join content_dir f)"
    and "read_text (gbk_tbl lib) fs Utf8 (os_path_join content_dir f) = Inl UnicodeDecodeError"
    and "read_text (gbk_tbl lib) fs Gbk (os_path_join content_dir f) = Inr c"
  shows "process_entry lib fs len i (JStr f) st =
    (None, st\<lparr>out := out st @ rule_text @ provenance i f @ strip c @ nl2,
               stdout := stdout st @ [Processing i len f, EncodingErrorRetry, SuccessGbk],
               success_count := success_count st + 1\<rparr>)"
  using assms exists_encodable [OF assms(1)]
  by (simp add: process_entry_def Let_def output_write_def py_print_def write_section_def)

lemma process_entry_gbk_fails:
  assumes "os_path_exists fs (os_path_join content_dir f)"
    and "read_text (gbk_tbl lib) fs Utf8 (os_path_join content_dir f) = Inl UnicodeDecodeError"
    and "read_text (gbk_tbl lib) fs Gbk (os_path_join content_dir f) = Inl e2"
    and "encodable (exn_str lib e2 (os_path_join content_dir f))"
  shows "process_entry lib fs len i (JStr f) st =
    (None, st\<lparr>stdout := stdout st @ [Processing i len f, EncodingErrorRetry, ReadFailed e2],
               error_count := error_count st + 1\<rparr>)"
  using assms exists_encodable [OF assms(1)]
  by (simp add: process_entry_def Let_def output_write_def py_print_def write_section_def)

lemma process_entry_error:
  assumes "os_path_exists fs (os_path_join content_dir f)"
    and "read_text (gbk_tbl lib) fs Utf8 (os_path_join content_dir f) = Inl e"
    and "e \<noteq> UnicodeDecodeError"
    and "encodable (exn_str lib e (os_path_join content_dir f))"
  shows "process_entry lib fs len i (JStr f) st =
    (None, st\<lparr>out := out st @ rule_text @ error_heading f
                    @ error_note (exn_str lib e (os_path_join content_dir f)),
               stdout := stdout st @ [Processing i len f, ReadFailed e],
               error_count := error_count st + 1\<rparr>)"
  using assms exists_encodable [OF assms(1)]
  by (simp add: process_entry_def Let_def output_write_def py_print_def write_section_def)

text \<open>Whatever an iteration does, it only appends to the output.\<close>

lemma process_entry_appends:
  "\<exists>rest. out (snd (process_entry lib fs len i x st)) = out st @ rest"
  by (cases x)
     (auto simp: process_entry_def Let_def split: sum.splits)


lemma process_entry_one_counter:
  assumes "process_entry lib fs len i x st = (None, st')"
  shows "(success_count st' = success_count st + 1 \<and> missing_count st' = missing_count st
            \<and> error_count st' = error_count st)
       \<or> (success_count st' = success_count st \<and> missing_count st' = missing_count st + 1
            \<and> error_count st' = error_count st)
       \<or> (success_count st' = success_count st \<and> missing_count st' = missing_count st
            \<and> error_count st' = error_count st + 1)"
proof (cases x)
  case (JStr f)
  from assms JStr have enc: "encodable f"
    by (cases "encodable f") (simp_all add: process_entry_unencodable)
  show ?thesis
  proof (cases "os_path_exists fs (os_path_join content_dir f)")
    case False
    with assms JStr enc show ?thesis by (auto simp: process_entry_missing)
  next
    case True
    note ex = this
    show ?thesis
    proof (cases "read_text (gbk_tbl lib) fs Utf8 (os_path_join content_dir f)")
      case (Inr c)
      with assms JStr ex show ?thesis by (auto simp: process_entry_read)
    next
      case (Inl e)
      note u = this
      show ?thesis
      proof (cases "e = UnicodeDecodeError")
        case False
        note ne = this
        show ?thesis
        proof (cases "encodable (exn_str lib e (os_path_join content_dir f))")
          case True
          with assms JStr ex u ne show ?thesis by (auto simp: process_entry_error)
        next
          case False
          with assms JStr ex u ne enc show ?thesis
            by (simp add: process_entry_def Let_def)
        qed
      next
        case True
        note de = this
        show ?thesis
        proof (cases "read_text (gbk_tbl lib) fs Gbk (os_path_join content_dir f)")
          case (Inl e2)
          note g = this
          show ?thesis
          proof (cases "encodable (exn_str lib e2 (os_path_join content_dir f))")
            case True
            with assms JStr ex u de g show ?thesis by (auto simp: process_entry_gbk_fails)
          next
            case False
            with assms JStr ex u de g enc show ?thesis
              by (simp add: process_entry_def Let_def)
          qed
        next
          case (Inr c)
          with assms JStr ex u de show ?thesis by (auto simp: process_entry_gbk)
        qed
      qed
    qed
  qed
qed (use assms in \<open>simp_all add: process_entry_def\<close>)

lemma process_entry_sum:
  assumes "process_entry lib fs len i x st = (None, st')"
  shows "success_count st' + missing_count st' + error_count st'
       = success_count st + missing_count st + error_count st + 1"
  using process_entry_one_counter [OF assms] by auto

subsection \<open>The loop\<close>

lemma merge_loop_sum:
  "merge_loop lib fs len i xs st = (None, st') \<Longrightarrow>
   success_count st' + missing_count st' + error_count st'
     = success_count st + missing_count st + error_count st + length xs"
proof (induction xs arbitrary: i st)
  case Nil
  then show ?case by simp
next
  case (Cons x xs)
  obtain r st1 where p: "process_entry lib (disk_view lib fs st) len i x st = (r, st1)"
    by (cases "process_entry lib (disk_view lib fs st) len i x st")
  with Cons.prems have r: "r = None" and l: "merge_loop lib fs len (Suc i) xs st1 = (None, st')"
    by (auto split: option.splits)
  from Cons.IH [OF l] process_entry_sum [OF p [unfolded r]] show ?case by simp
qed

lemma merge_loop_appends:
  "\<exists>rest. out (snd (merge_loop lib fs len i xs st)) = out st @ rest"
proof (induction xs arbitrary: i st)
  case Nil
  show ?case by simp
next
  case (Cons x xs)
  obtain r st1 where p: "process_entry lib (disk_view lib fs st) len i x st = (r, st1)"
    by (cases "process_entry lib (disk_view lib fs st) len i x st")
  from process_entry_appends [of lib "disk_view lib fs st" len i x st] p
  obtain r1 where o: "out st1 = out st @ r1"
    by auto
  show ?case
  proof (cases r)
    case (Some e)
    with p o show ?thesis by simp
  next
    case None
    from Cons.IH [of "Suc i" st1] obtain r2
      where "out (snd (merge_loop lib fs len (Suc i) xs st1)) = out st1 @ r2" ..
    with p o None show ?thesis by simp
  qed
qed


lemma py_iter_len: "py_iter v = Inr xs \<Longrightarrow> py_len v = Inr n \<Longrightarrow> length xs = n"
  by (cases v) auto

lemma py_len_iter: "py_len v = Inr n \<Longrightarrow> \<exists>xs. py_iter v = Inr xs"
  by (cases v) auto

subsection \<open>Writing the header\<close>

lemma write_all_ok:
  "list_all encodable ls \<Longrightarrow> write_all ls w = (None, w @ concat ls)"
  by (induction ls arbitrary: w) auto

lemma write_all_prefix: "\<exists>k. snd (write_all ls w) = w @ concat (take k ls)"
proof (induction ls arbitrary: w)
  case Nil
  show ?case by simp
next
  case (Cons s ss)
  show ?case
  proof (cases "encodable s")
    case False
    then have "snd (write_all (s # ss) w) = w @ concat (take 0 (s # ss))" by simp
    then show ?thesis ..
  next
    case True
    from Cons [of "w @ s"] obtain k where "snd (write_all ss (w @ s)) = (w @ s) @ concat (take k ss)" ..
    with True have "snd (write_all (s # ss) w) = w @ concat (take (Suc k) (s # ss))" by simp
    then show ?thesis ..
  qed
qed

lemma header_lines_ok: "site_ok lib (JObj si) \<Longrightarrow> list_all encodable (header_lines lib now si)"
  by (simp add: site_ok_def header_lines_def encodable_replicate scalar_def encodable_Cons
        split: if_splits)

lemma write_header_ok:
  "site_ok lib (JObj si) \<Longrightarrow> write_header lib now (JObj si) = (None, header_text lib now si)"
  by (simp add: write_header_def header_text_def write_all_ok header_lines_ok)

subsection \<open>The sample inputs, evaluated\<close>

lemmas fs_eval = os_path_exists_def os_path_join_def resolve_def read_text_def decode_def
  utf8_decode_def content_dir_def config_path_def output_path_def asc_def ascii_bytes_def
  cont_def encodable_def scalar_def

lemma site_ok_empty: "site_ok lib (JObj [])"
  by (simp add: site_ok_def dict_get_def fmt_def)

lemma demo_site_ok: "site_ok demo_lib (JObj demo_site)"
  by (simp add: site_ok_def dict_get_def fmt_def demo_site_def asc_def encodable_def scalar_def)


lemma demo_view: "disk_view demo_lib demo_fs1 st = demo_fs1"
  by (simp add: disk_view_def demo_lib_def demo_fs1_def demo_fs_def output_path_def asc_def)

lemma demo_content_exists: "os_path_exists demo_fs content_dir"
  by (simp add: fs_eval demo_fs_def)

lemma demo_load_config: "load_config demo_lib demo_fs = Inr demo_doc"
  by (simp add: load_config_def fs_eval demo_fs_def demo_lib_def parser_of_def demo_text_def)

lemma demo_open_w: "open_w demo_fs output_path = Inr demo_fs1"
  by (simp add: open_w_def demo_fs_def demo_fs1_def fs_eval)

lemma demo_entry1:
  "process_entry demo_lib demo_fs1 n i (JStr (asc ''a.md'')) st =
   (None, st\<lparr>out := out st @ rule_text @ provenance i (asc ''a.md'') @ asc ''Hello'' @ nl2,
              stdout := stdout st @ [Processing i n (asc ''a.md''), Success],
              success_count := success_count st + 1\<rparr>)"
proof -
  have a: "os_path_exists demo_fs1 (os_path_join content_dir (asc ''a.md''))"
    by (simp add: fs_eval demo_fs_def demo_fs1_def)
  have b: "read_text (gbk_tbl demo_lib) demo_fs1 Utf8 (os_path_join content_dir (asc ''a.md''))
             = Inr (asc ''Hello\<newline>'')"
    by (simp add: fs_eval demo_fs_def demo_fs1_def)
  have c: "strip (asc ''Hello\<newline>'') = asc ''Hello''"
    by (simp add: strip_def asc_def py_isspace_def)
  show ?thesis using process_entry_read [OF a b] c by simp
qed

lemma demo_missing: "\<not> os_path_exists demo_fs1 (os_path_join content_dir (asc ''gone.md''))"
  by (simp add: fs_eval demo_fs_def demo_fs1_def)

lemma demo_entry2:
  "process_entry demo_lib demo_fs1 n i (JStr (asc ''gone.md'')) st =
   (None, st\<lparr>out := out st @ rule_text @ missing_heading (asc ''gone.md'') @ missing_note,
              stdout := stdout st @ [Processing i n (asc ''gone.md''), FileMissingSkip],
              missing_count := missing_count st + 1\<rparr>)"
  using process_entry_missing [OF encodable_asc demo_missing] by simp

lemma demo_entry3:
  "process_entry demo_lib demo_fs1 n i (JStr (asc ''sub'')) st =
   (None, st\<lparr>out := out st @ rule_text @ error_heading (asc ''sub'')
                   @ error_note (asc ''error''),
              stdout := stdout st @ [Processing i n (asc ''sub''), ReadFailed IsADirectoryError],
              error_count := error_count st + 1\<rparr>)"
proof -
  have a: "os_path_exists demo_fs1 (os_path_join content_dir (asc ''sub''))"
    by (simp add: fs_eval demo_fs_def demo_fs1_def)
  have b: "read_text (gbk_tbl demo_lib) demo_fs1 Utf8 (os_path_join content_dir (asc ''sub''))
             = Inl IsADirectoryError"
    by (simp add: fs_eval demo_fs_def demo_fs1_def)
  have c: "encodable (exn_str demo_lib IsADirectoryError (os_path_join content_dir (asc ''sub'')))"
    by (simp add: demo_lib_def)
  show ?thesis using process_entry_error [OF a b _ c] by (simp add: demo_lib_def)
qed

lemma demo_gbk_exists: "os_path_exists demo_fs1 (os_path_join content_dir (asc ''g.md''))"
  by (simp add: fs_eval demo_fs_def demo_fs1_def)

lemma demo_gbk_resolve:
  "resolve demo_fs1 (os_path_join content_dir (asc ''g.md'')) = Inr (File [0x20, 0xC4, 0xE3])"
  by (simp add: fs_eval demo_fs_def demo_fs1_def)

lemma demo_gbk_utf8: "utf8_decode [0x20, 0xC4, 0xE3] = None"
  by (simp add: utf8_decode_def cont_def)


lemma demo_gbk_strip: "strip (universal_newlines [0x20, 0x4F60]) = [0x4F60]"
  by (simp add: strip_def py_isspace_def)

lemma demo_entry4:
  "process_entry demo_lib demo_fs1 n i (JStr (asc ''g.md'')) st =
   (None, st\<lparr>out := out st @ rule_text @ provenance i (asc ''g.md'') @ [0x4F60] @ nl2,
              stdout := stdout st @ [Processing i n (asc ''g.md''), EncodingErrorRetry, SuccessGbk],
              success_count := success_count st + 1\<rparr>)"
proof -
  have b: "read_text (gbk_tbl demo_lib) demo_fs1 Utf8 (os_path_join content_dir (asc ''g.md''))
             = Inl UnicodeDecodeError"
    by (simp add: read_text_def demo_gbk_resolve decode_def demo_gbk_utf8)
  have c: "read_text (gbk_tbl demo_lib) demo_fs1 Gbk (os_path_join content_dir (asc ''g.md''))
             = Inr (universal_newlines [0x20, 0x4F60])"
    by (simp add: read_text_def demo_gbk_resolve decode_def demo_lib_def demo_tbl_def)
  show ?thesis using process_entry_gbk [OF demo_gbk_exists b c] demo_gbk_strip by simp
qed

lemma demo_bad_exists: "os_path_exists demo_fs1 (os_path_join content_dir (asc ''bad.bin''))"
  by (simp add: fs_eval demo_fs_def demo_fs1_def)

lemma demo_bad_utf8:
  "read_text (gbk_tbl demo_lib) demo_fs1 Utf8 (os_path_join content_dir (asc ''bad.bin''))
     = Inl UnicodeDecodeError"
  by (simp add: fs_eval demo_fs_def demo_fs1_def)

lemma demo_bad_gbk:
  "read_text (gbk_tbl demo_lib) demo_fs1 Gbk (os_path_join content_dir (asc ''bad.bin''))
     = Inl UnicodeDecodeError"
  by (simp add: fs_eval demo_fs_def demo_fs1_def demo_lib_def demo_tbl_def)

lemma demo_entry5:
  "process_entry demo_lib demo_fs1 n i (JStr (asc ''bad.bin'')) st =
   (None, st\<lparr>stdout := stdout st @ [Processing i n (asc ''bad.bin''), EncodingErrorRetry,
                                        ReadFailed UnicodeDecodeError],
              error_count := error_count st + 1\<rparr>)"
proof -
  have c: "encodable (exn_str demo_lib UnicodeDecodeError
             (os_path_join content_dir (asc ''bad.bin'')))"
    by (simp add: demo_lib_def)
  show ?thesis
    using process_entry_gbk_fails [OF demo_bad_exists demo_bad_utf8 demo_bad_gbk c] by simp
qed

lemma demo_loop:
  "merge_loop demo_lib demo_fs1 n i demo_chapters st =
   (None, st\<lparr>out := out st
                 @ rule_text @ provenance i (asc ''a.md'') @ asc ''Hello'' @ nl2
                 @ rule_text @ missing_heading (asc ''gone.md'') @ missing_note
                 @ rule_text @ error_heading (asc ''sub'') @ error_note (asc ''error'')
                 @ rule_text @ provenance (Suc (Suc (Suc i))) (asc ''g.md'') @ [0x4F60] @ nl2,
              stdout := stdout st @ [Processing i n (asc ''a.md''), Success,
                 Processing (Suc i) n (asc ''gone.md''), FileMissingSkip,
                 Processing (Suc (Suc i)) n (asc ''sub''), ReadFailed IsADirectoryError,
                 Processing (Suc (Suc (Suc i))) n (asc ''g.md''), EncodingErrorRetry, SuccessGbk,
                 Processing (Suc (Suc (Suc (Suc i)))) n (asc ''bad.bin''), EncodingErrorRetry,
                 ReadFailed UnicodeDecodeError],
              success_count := success_count st + 2,
              missing_count := missing_count st + 1,
              error_count := error_count st + 2\<rparr>)"
  by (simp add: demo_chapters_def demo_view demo_entry1 demo_entry2 demo_entry3 demo_entry4
        demo_entry5)

lemma demo_run:
  "merge_markdown_files demo_lib now demo_fs =
     \<lparr>outcome = Completed 2 1 2,
      files = put_file demo_fs1 output_path
                (utf8_encode (header_text demo_lib now demo_site @ demo_sections)),
      printed = [StartMerge 5, Processing 1 5 (asc ''a.md''), Success,
                 Processing 2 5 (asc ''gone.md''), FileMissingSkip,
                 Processing 3 5 (asc ''sub''), ReadFailed IsADirectoryError,
                 Processing 4 5 (asc ''g.md''), EncodingErrorRetry, SuccessGbk,
                 Processing 5 5 (asc ''bad.bin''), EncodingErrorRetry,
                 ReadFailed UnicodeDecodeError, Summary 5 2 1 2]\<rparr>"
proof -
  let ?cfg = "[(asc ''chapters'', JArr demo_chapters), (asc ''siteInfo'', JObj demo_site)]"
  have ro: "dict_get ?cfg (asc ''chapters'') (JArr []) = JArr demo_chapters"
    by (simp add: dict_get_def)
  have si: "dict_get ?cfg (asc ''siteInfo'') (JObj []) = JObj demo_site"
    by (simp add: dict_get_def asc_def)
  have ne: "demo_chapters \<noteq> []" and n: "length demo_chapters = 5"
    by (simp_all add: demo_chapters_def)
  have four: "Suc (Suc (Suc (Suc 0))) = 4"
    by simp
  have b: "merge_body demo_lib now demo_fs 5 (JArr demo_chapters) (JObj demo_site) =
     \<lparr>outcome = Completed 2 1 2,
      files = put_file demo_fs1 output_path
                (utf8_encode (header_text demo_lib now demo_site @ demo_sections)),
      printed = [StartMerge 5, Processing 1 5 (asc ''a.md''), Success,
                 Processing 2 5 (asc ''gone.md''), FileMissingSkip,
                 Processing 3 5 (asc ''sub''), ReadFailed IsADirectoryError,
                 Processing 4 5 (asc ''g.md''), EncodingErrorRetry, SuccessGbk,
                 Processing 5 5 (asc ''bad.bin''), EncodingErrorRetry,
                 ReadFailed UnicodeDecodeError, Summary 5 2 1 2]\<rparr>"
    by (simp add: merge_body_def demo_open_w write_header_ok [OF demo_site_ok] demo_loop
          demo_sections_def four)
  show ?thesis
    by (simp add: merge_markdown_files_def demo_content_exists demo_load_config demo_doc_def
          ro si ne n Let_def b)
qed

lemma demo_outcome: "outcome (merge_markdown_files demo_lib demo_now demo_fs) = Completed 2 1 2"
  by (simp add: demo_run)

lemma empty_content_exists: "os_path_exists empty_fs content_dir"
  by (simp add: fs_eval empty_fs_def)

lemma empty_load_config: "load_config empty_lib empty_fs = Inr empty_doc"
  by (simp add: load_config_def fs_eval empty_fs_def empty_lib_def demo_lib_def parser_of_def
        empty_text_def)

subsection \<open>Files of the working directory\<close>

lemma split_path_slash: "47 \<notin> set a \<Longrightarrow> split_path (a @ 47 # b) = a # split_path b"
  by (induction a) auto

lemma split_path_not_Nil: "split_path p \<noteq> []"
  by (cases p) (auto split: list.splits)

lemma walk_Nil [simp]: "walk n up [] = Inr n"
  by (cases n) simp_all

lemma map_of_put_file:
  "map_of (put_file fs n b) k = (if k = n then Some (File b) else map_of fs k)"
  by (induction fs n b rule: put_file.induct) auto

lemma put_file_twice: "put_file (put_file fs n a) n b = put_file fs n b"
  by (induction fs n a rule: put_file.induct) auto

lemma resolve_content:
  "resolve fs content_dir
     = (case map_of fs content_dir of None \<Rightarrow> Inl FileNotFoundError | Some m \<Rightarrow> Inr m)"
  by (simp add: resolve_def content_dir_def asc_def encodable_def scalar_def
        split: option.splits)

lemma resolve_config:
  "resolve fs config_path
     = (case map_of fs config_path of None \<Rightarrow> Inl FileNotFoundError | Some m \<Rightarrow> Inr m)"
  by (simp add: resolve_def config_path_def asc_def encodable_def scalar_def
        split: option.splits)

lemma names_differ: "content_dir \<noteq> output_path" "config_path \<noteq> output_path"
  by (simp_all add: content_dir_def config_path_def output_path_def asc_def)

lemma exists_content_put_file:
  "os_path_exists (put_file fs output_path b) content_dir = os_path_exists fs content_dir"
  by (simp add: os_path_exists_def resolve_content map_of_put_file names_differ)

lemma load_config_put_file: "load_config lib (put_file fs output_path b) = load_config lib fs"
  by (simp add: load_config_def read_text_def resolve_config map_of_put_file names_differ)

lemma open_w_cases:
  "open_w fs n = Inl IsADirectoryError \<or> open_w fs n = Inr (put_file fs n [])"
  by (auto simp: open_w_def split: option.splits node.splits)

lemma open_w_put_file: "open_w (put_file fs n b) n = Inr (put_file fs n [])"
  by (simp add: open_w_def map_of_put_file put_file_twice)

lemma output_file_put_file: "output_file (put_file fs output_path b) = Some b"
  by (simp add: output_file_def map_of_put_file)

lemma merge_body_put_file:
  assumes "open_w fs output_path = Inr fs1"
  shows "merge_body lib now (put_file fs output_path b) n ro si = merge_body lib now fs n ro si"
proof -
  from assms open_w_cases [of fs output_path] have "open_w fs output_path = Inr (put_file fs output_path [])"
    by auto
  then show ?thesis by (simp add: merge_body_def open_w_put_file)
qed


text \<open>
  Set-up looks at the file system only through the content directory and the
  configuration file: either the run stops there, or it is the body of the \<open>with\<close>
  block on a chapters value and a \<open>siteInfo\<close> that the file system does not
  otherwise influence.
\<close>

lemma merge_setup:
  "(\<forall>now fs'.
      os_path_exists fs' content_dir = os_path_exists fs content_dir
      \<and> load_config lib fs' = load_config lib fs
      \<longrightarrow> merge_markdown_files lib now fs'
            = \<lparr>outcome = outcome (merge_markdown_files lib now fs), files = fs',
               printed = printed (merge_markdown_files lib now fs)\<rparr>)
   \<or> (\<exists>n ro si. \<forall>now fs'.
          os_path_exists fs' content_dir = os_path_exists fs content_dir
          \<and> load_config lib fs' = load_config lib fs
          \<longrightarrow> merge_markdown_files lib now fs' = merge_body lib now fs' n ro si)"
proof (cases "os_path_exists fs content_dir")
  case False
  then show ?thesis by (simp add: merge_markdown_files_def)
next
  case True
  note ex = this
  show ?thesis
  proof (cases "load_config lib fs")
    case (Inl e)
    with ex show ?thesis by (simp add: merge_markdown_files_def)
  next
    case (Inr config)
    note cf = this
    show ?thesis
    proof (cases "\<exists>cfg. config = JObj cfg
             \<and> truthy (dict_get cfg (asc ''chapters'') (JArr []))
             \<and> (\<exists>n. py_len (dict_get cfg (asc ''chapters'') (JArr [])) = Inr n)")
      case False
      with ex cf have "\<forall>now fs'.
          os_path_exists fs' content_dir = os_path_exists fs content_dir
          \<and> load_config lib fs' = load_config lib fs
          \<longrightarrow> merge_markdown_files lib now fs'
                = \<lparr>outcome = outcome (merge_markdown_files lib now fs), files = fs',
                   printed = printed (merge_markdown_files lib now fs)\<rparr>"
        by (cases config)
          (auto simp: merge_markdown_files_def Let_def split: sum.splits)
      then show ?thesis ..
    next
      case True
      then obtain cfg n where c: "config = JObj cfg"
        and t: "truthy (dict_get cfg (asc ''chapters'') (JArr []))"
        and n: "py_len (dict_get cfg (asc ''chapters'') (JArr [])) = Inr n"
        by blast
      have "\<forall>now fs'.
          os_path_exists fs' content_dir = os_path_exists fs content_dir
          \<and> load_config lib fs' = load_config lib fs
          \<longrightarrow> merge_markdown_files lib now fs'
                = merge_body lib now fs' n (dict_get cfg (asc ''chapters'') (JArr []))
                    (dict_get cfg (asc ''siteInfo'') (JObj []))"
        using ex cf c t n by (simp add: merge_markdown_files_def Let_def)
      then show ?thesis by blast
    qed
  qed
qed

lemma merge_body_any_prior:
  "merge_body lib now (put_file fs output_path b) n ro si
     = merge_body lib now (put_file fs output_path []) n ro si"
  using merge_body_put_file [OF open_w_put_file, of lib now fs "[]" b n ro si]
  by (simp add: put_file_twice)


lemma merge_any_prior:
  "merge_markdown_files lib now (put_file fs output_path b)
     = merge_markdown_files lib now (put_file fs output_path b')
   \<or> (files (merge_markdown_files lib now (put_file fs output_path b)) = put_file fs output_path b
      \<and> files (merge_markdown_files lib now (put_file fs output_path b'))
          = put_file fs output_path b'
      \<and> outcome (merge_markdown_files lib now (put_file fs output_path b))
          = outcome (merge_markdown_files lib now (put_file fs output_path b'))
      \<and> printed (merge_markdown_files lib now (put_file fs output_path b))
          = printed (merge_markdown_files lib now (put_file fs output_path b')))"
proof -
  from merge_setup [of fs lib] show ?thesis
  proof
    assume a: "\<forall>now fs'.
      os_path_exists fs' content_dir = os_path_exists fs content_dir
      \<and> load_config lib fs' = load_config lib fs
      \<longrightarrow> merge_markdown_files lib now fs'
            = \<lparr>outcome = outcome (merge_markdown_files lib now fs), files = fs',
               printed = printed (merge_markdown_files lib now fs)\<rparr>"
    have "merge_markdown_files lib now (put_file fs output_path c)
            = \<lparr>outcome = outcome (merge_markdown_files lib now fs),
               files = put_file fs output_path c,
               printed = printed (merge_markdown_files lib now fs)\<rparr>" for c
      by (rule a [rule_format]) (simp add: exists_content_put_file load_config_put_file)
    then have "files (merge_markdown_files lib now (put_file fs output_path c))
                 = put_file fs output_path c
             \<and> outcome (merge_markdown_files lib now (put_file fs output_path c))
                 = outcome (merge_markdown_files lib now fs)
             \<and> printed (merge_markdown_files lib now (put_file fs output_path c))
                 = printed (merge_markdown_files lib now fs)" for c
      by (metis result.select_convs)
    then show ?thesis by simp
  next
    assume "\<exists>n ro si. \<forall>now fs'.
          os_path_exists fs' content_dir = os_path_exists fs content_dir
          \<and> load_config lib fs' = load_config lib fs
          \<longrightarrow> merge_markdown_files lib now fs' = merge_body lib now fs' n ro si"
    then obtain n ro si where m: "\<And>now fs'.
          os_path_exists fs' content_dir = os_path_exists fs content_dir
          \<Longrightarrow> load_config lib fs' = load_config lib fs
          \<Longrightarrow> merge_markdown_files lib now fs' = merge_body lib now fs' n ro si"
      by blast
    have "merge_markdown_files lib now (put_file fs output_path c)
            = merge_body lib now (put_file fs output_path []) n ro si" for c
      using m [of "put_file fs output_path c" now] merge_body_any_prior [of lib now fs c n ro si]
      by (simp add: exists_content_put_file load_config_put_file)
    then show ?thesis by simp
  qed
qed


subsection \<open>Decoding what was encoded\<close>

lemma utf8_encode_append: "utf8_encode (a @ b) = utf8_encode a @ utf8_encode b"
  by (simp add: utf8_encode_def)

lemma utf8_encode_Nil [simp]: "utf8_encode [] = []"
  by (simp add: utf8_encode_def)

lemma utf8_enc1_bytes: "c < 0x110000 \<Longrightarrow> \<forall>b \<in> set (utf8_enc1 c). b < 256"
proof -
  assume c: "c < 0x110000"
  have "c div 0x40 < 0x40 \<or> \<not> c < 0x800" "c div 0x1000 < 0x10 \<or> \<not> c < 0x10000"
    "c div 0x40000 < 8"
    "c mod 0x40 < 0x40" "(c div 0x40) mod 0x40 < 0x40" "(c div 0x1000) mod 0x40 < 0x40"
    using c by arith+
  then show ?thesis by auto
qed

lemma unat_of_nat_byte: "b < 256 \<Longrightarrow> unat (of_nat b :: 8 word) = b"
  by (simp add: unat_of_nat)

lemma map_unat_of_nat: "\<forall>b \<in> set bs. b < 256 \<Longrightarrow> map unat (map of_nat bs :: 8 word list) = bs"
  by (induction bs) (simp_all add: unat_of_nat_byte)

lemma utf8_dec_enc1:
  assumes "scalar c"
  shows "utf8_dec (utf8_enc1 c @ r) = map_option (Cons c) (utf8_dec r)"
proof -
  from assms have sc: "c < 0xD800 \<or> (0xE000 \<le> c \<and> c < 0x110000)"
    by (simp add: scalar_def)
  define m where "m = c mod 0x40"
  define d where "d = c div 0x40"
  define p where "p = d mod 0x40"
  define e where "e = d div 0x40"
  define p1 where "p1 = e mod 0x40"
  define q where "q = e div 0x40"
  have cd: "c = d * 0x40 + m" and m: "m < 0x40"
    by (simp_all add: d_def m_def)
  have de: "d = e * 0x40 + p" and p: "p < 0x40"
    by (simp_all add: e_def p_def)
  have eq: "e = q * 0x40 + p1" and p1: "p1 < 0x40"
    by (simp_all add: q_def p1_def)
  have e': "c div 0x1000 = e"
    unfolding e_def d_def by (simp add: div_mult2_eq [symmetric])
  have q': "c div 0x40000 = q"
    unfolding q_def e_def d_def by (simp add: div_mult2_eq [symmetric])
  consider "c < 0x80" | "0x80 \<le> c" "c < 0x800" | "0x800 \<le> c" "c < 0x10000"
    | "0x10000 \<le> c" "c < 0x110000"
    using sc by linarith
  then show ?thesis
  proof cases
    case 1
    then show ?thesis by simp
  next
    case 2
    from 2 cd m have d2: "2 \<le> d" "d < 0x20"
      by linarith+
    have a: "0xC2 \<le> 0xC0 + d" "0xC0 + d \<le> 0xDF" "\<not> 0xC0 + d < 0x80"
      using d2 by linarith+
    have b: "cont (0x80 + m)"
      using m by (simp add: cont_def)
    have v: "(0xC0 + d - 0xC0) * 0x40 + (0x80 + m - 0x80) = c"
      using cd by simp
    from 2 have en: "utf8_enc1 c = [0xC0 + d, 0x80 + m]"
      by (simp add: d_def m_def)
    show ?thesis
      unfolding en using a b v by simp
  next
    case 3
    from 3 cd de m p have e3: "e < 0x10"
      by linarith
    have a: "0xE0 \<le> 0xE0 + e" "0xE0 + e \<le> 0xEF" "\<not> 0xE0 + e < 0x80"
      "\<not> (0xC2 \<le> 0xE0 + e \<and> 0xE0 + e \<le> 0xDF)"
      using e3 by linarith+
    have lo: "(if 0xE0 + e = 0xE0 then 0xA0 else 0x80) \<le> 0x80 + p"
      using 3 cd de m p by (cases "e = 0") auto
    have hi: "0x80 + p \<le> (if 0xE0 + e = 0xED then 0x9F else 0xBF)"
    proof (cases "e = 0xD")
      case True
      with 3 sc cd de m p have "p < 0x20" by linarith
      with True show ?thesis by simp
    next
      case False
      with p show ?thesis by simp
    qed
    have b: "cont (0x80 + m)"
      using m by (simp add: cont_def)
    have v: "(0xE0 + e - 0xE0) * 0x1000 + (0x80 + p - 0x80) * 0x40 + (0x80 + m - 0x80) = c"
      using cd de by simp
    from 3 have en: "utf8_enc1 c = [0xE0 + e, 0x80 + p, 0x80 + m]"
      by (simp add: e' p_def d_def m_def)
    show ?thesis
      unfolding en using a lo hi b v by simp
  next
    case 4
    from 4 cd de eq m p p1 have q4: "q \<le> 4"
      by linarith
    have a: "0xF0 \<le> 0xF0 + q" "0xF0 + q \<le> 0xF4" "\<not> 0xF0 + q < 0x80"
      "\<not> (0xC2 \<le> 0xF0 + q \<and> 0xF0 + q \<le> 0xDF)" "\<not> (0xE0 \<le> 0xF0 + q \<and> 0xF0 + q \<le> 0xEF)"
      using q4 by linarith+
    have lo: "(if 0xF0 + q = 0xF0 then 0x90 else 0x80) \<le> 0x80 + p1"
    proof (cases "q = 0")
      case True
      with 4 cd de eq m p p1 have "0x10 \<le> p1" by linarith
      with True show ?thesis by simp
    next
      case False
      then show ?thesis by simp
    qed
    have hi: "0x80 + p1 \<le> (if 0xF0 + q = 0xF4 then 0x8F else 0xBF)"
    proof (cases "q = 4")
      case True
      with 4 cd de eq m p p1 have "p1 < 0x10" by linarith
      with True show ?thesis by simp
    next
      case False
      with p1 show ?thesis by simp
    qed
    have b: "cont (0x80 + p)" "cont (0x80 + m)"
      using m p by (simp_all add: cont_def)
    have v: "(0xF0 + q - 0xF0) * 0x40000 + (0x80 + p1 - 0x80) * 0x1000
               + (0x80 + p - 0x80) * 0x40 + (0x80 + m - 0x80) = c"
      using cd de eq by simp
    from 4 have en: "utf8_enc1 c = [0xF0 + q, 0x80 + p1, 0x80 + p, 0x80 + m]"
      by (simp add: q' e' p1_def p_def d_def m_def)
    show ?thesis
      unfolding en using a lo hi b v by simp
  qed
qed

lemma utf8_dec_concat:
  "encodable s \<Longrightarrow>
   utf8_dec (concat (map utf8_enc1 s) @ r) = map_option (\<lambda>x. s @ x) (utf8_dec r)"
proof (induction s)
  case Nil
  show ?case by (simp add: option.map_ident)
next
  case (Cons c s)
  then have sc: "scalar c" and es: "encodable s"
    by (simp_all add: encodable_Cons)
  have "utf8_dec (concat (map utf8_enc1 (c # s)) @ r)
          = utf8_dec (utf8_enc1 c @ (concat (map utf8_enc1 s) @ r))"
    by (simp del: utf8_enc1.simps)
  also have "\<dots> = map_option (Cons c) (utf8_dec (concat (map utf8_enc1 s) @ r))"
    by (rule utf8_dec_enc1 [OF sc])
  also have "\<dots> = map_option (\<lambda>x. (c # s) @ x) (utf8_dec r)"
    by (simp add: Cons.IH [OF es] option.map_comp comp_def)
  finally show ?case .
qed

lemma concat_enc1_bytes: "encodable s \<Longrightarrow> \<forall>b \<in> set (concat (map utf8_enc1 s)). b < 256"
proof (induction s)
  case Nil
  show ?case by simp
next
  case (Cons c s)
  then have "scalar c" and es: "encodable s"
    by (simp_all add: encodable_Cons)
  then have "c < 0x110000" by (auto simp: scalar_def)
  from utf8_enc1_bytes [OF this] Cons.IH [OF es] show ?case
    by (auto simp del: utf8_enc1.simps)
qed

text \<open>
  The decoder reads back every text that the encoder accepts: what the run writes to the
  output file, decoded as UTF-8, is the text it wrote.
\<close>

lemma utf8_roundtrip: "encodable s \<Longrightarrow> utf8_decode (utf8_encode s) = Some s"
proof -
  assume e: "encodable s"
  have "map unat (utf8_encode s) = concat (map utf8_enc1 s)"
    unfolding utf8_encode_def by (rule map_unat_of_nat [OF concat_enc1_bytes [OF e]])
  with utf8_dec_concat [OF e, of "[]"] show ?thesis
    by (simp add: utf8_decode_def)
qed

subsection \<open>The header\<close>

lemma field_fmt:
  assumes "field_ok si k"
  shows "fmt lib (dict_get si k (JStr d)) = (case str_field si k of None \<Rightarrow> d | Some s \<Rightarrow> s)"
  using assms
  by (auto simp: field_ok_def dict_get_def str_field_def fmt_def split: option.splits json.splits)

lemma field_encodable:
  assumes "field_ok si k" and "encodable d"
  shows "encodable (fmt lib (dict_get si k (JStr d)))"
  using assms
  by (auto simp: field_ok_def dict_get_def fmt_def split: option.splits json.splits)

lemma field_other:
  assumes "field_ok si k"
  shows "(if truthy (dict_get si k JNull) then [a @ fmt lib (dict_get si k JNull) @ b] else [])
       = (case str_field si k of None \<Rightarrow> [] | Some s \<Rightarrow> if s = [] then [] else [a @ s @ b])"
  using assms
  by (auto simp: field_ok_def dict_get_def str_field_def fmt_def split: option.splits json.splits)

lemma field_other_encodable:
  assumes "field_ok si k"
  shows "truthy (dict_get si k JNull) \<Longrightarrow> encodable (fmt lib (dict_get si k JNull))"
  using assms
  by (auto simp: field_ok_def dict_get_def fmt_def split: option.splits json.splits)

lemma site_fields_site_ok: "site_fields_ok si \<Longrightarrow> site_ok lib (JObj si)"
  by (simp add: site_fields_ok_def site_ok_def field_encodable field_other_encodable)

lemma header_text_spec:
  assumes "site_fields_ok si"
  shows "header_text lib now si
       = spec_header (str_field si (asc ''title'')) (str_field si (asc ''subtitle''))
           (str_field si (asc ''other'')) (str_field si (asc ''author''))
           (str_field si (asc ''url'')) (strftime now)"
proof -
  from assms have f: "field_ok si (asc ''title'')" "field_ok si (asc ''subtitle'')"
    "field_ok si (asc ''other'')" "field_ok si (asc ''author'')" "field_ok si (asc ''url'')"
    by (simp_all add: site_fields_ok_def)
  show ?thesis
    unfolding header_text_def header_lines_def spec_header_def
    by (simp only: f field_fmt field_other nl2_def) (simp split: option.splits)
qed

lemma encodable_header: "site_ok lib (JObj si) \<Longrightarrow> encodable (header_text lib now si)"
proof -
  assume "site_ok lib (JObj si)"
  then have "list_all encodable (header_lines lib now si)" by (rule header_lines_ok)
  then show ?thesis
    unfolding header_text_def by (induction "header_lines lib now si") (auto simp: list_all_iff encodable_def)
qed

lemma merge_body_output:
  assumes "open_w fs output_path = Inr fs1" and "py_len ro = Inr n"
    and "site_ok lib (JObj si)"
  shows "\<exists>rest. output_file (files (merge_body lib now fs n ro (JObj si)))
           = Some (utf8_encode (header_text lib now si @ rest))"
proof -
  from py_len_iter [OF assms(2)] obtain xs where xs: "py_iter ro = Inr xs" ..
  let ?st = "\<lparr>out = header_text lib now si, stdout = [StartMerge n], success_count = 0,
              missing_count = 0, error_count = 0\<rparr>"
  obtain r st' where l: "merge_loop lib fs1 n 1 xs ?st = (r, st')"
    by (cases "merge_loop lib fs1 n 1 xs ?st")
  from merge_loop_appends [of lib fs1 n 1 xs ?st] l obtain rest
    where o: "out st' = header_text lib now si @ rest"
    by auto
  have "output_file (files (merge_body lib now fs n ro (JObj si))) = Some (utf8_encode (out st'))"
    using assms(1) xs l
    by (cases r)
       (simp_all add: merge_body_def write_header_ok [OF assms(3)] output_file_put_file)
  with o show ?thesis by auto
qed

subsection \<open>The time stamp\<close>

lemma dec_1: "n < 10 \<Longrightarrow> dec n = [48 + n]"
  by (subst dec.simps) simp

lemma dec_2: "10 \<le> n \<Longrightarrow> n < 100 \<Longrightarrow> dec n = [48 + n div 10, 48 + n mod 10]"
proof -
  assume a: "10 \<le> n" "n < 100"
  then have "n div 10 < 10" by linarith
  with a show ?thesis by (subst dec.simps) (simp add: dec_1)
qed

lemma dec_3:
  "100 \<le> n \<Longrightarrow> n < 1000 \<Longrightarrow> dec n = [48 + n div 100, 48 + (n div 10) mod 10, 48 + n mod 10]"
proof -
  assume a: "100 \<le> n" "n < 1000"
  then have b: "10 \<le> n div 10" "n div 10 < 100" by linarith+
  have "n div 10 div 10 = n div 100" by (simp add: div_mult2_eq [symmetric])
  with a b show ?thesis by (subst dec.simps) (simp add: dec_2)
qed

lemma dec_4:
  "1000 \<le> n \<Longrightarrow> n < 10000 \<Longrightarrow>
   dec n = [48 + n div 1000, 48 + (n div 100) mod 10, 48 + (n div 10) mod 10, 48 + n mod 10]"
proof -
  assume a: "1000 \<le> n" "n < 10000"
  then have b: "100 \<le> n div 10" "n div 10 < 1000" by linarith+
  have "n div 10 div 100 = n div 1000" "n div 10 div 10 = n div 100"
    by (simp_all add: div_mult2_eq [symmetric])
  with a b show ?thesis by (subst dec.simps) (simp add: dec_3)
qed

lemma zpad_2: "n < 100 \<Longrightarrow> zpad 2 n = [digit (n div 10), digit n]"
proof (cases "n < 10")
  case True
  then show ?thesis by (simp add: zpad_def dec_1 digit_def)
next
  case False
  assume "n < 100"
  with False have "n div 10 < 10" by linarith
  with False \<open>n < 100\<close> show ?thesis by (simp add: zpad_def dec_2 digit_def)
qed

lemma year_4:
  "1000 \<le> n \<Longrightarrow> n \<le> 9999 \<Longrightarrow>
   dec n = [digit (n div 1000), digit (n div 100), digit (n div 10), digit n]"
proof -
  assume a: "1000 \<le> n" "n \<le> 9999"
  then have "n div 1000 < 10" by linarith
  with a show ?thesis by (simp add: dec_4 digit_def)
qed

lemma strftime_shape:
  assumes "valid_clock t"
  shows "strftime t = spec_stamp t"
proof -
  from assms have y: "1000 \<le> year t" "year t \<le> 9999"
    and r: "month t < 100" "day t < 100" "hour t < 100" "minute t < 100" "second t < 100"
    by (simp_all add: valid_clock_def)
  show ?thesis
    by (simp add: strftime_def spec_stamp_def year_4 [OF y] zpad_2 r asc_def)
qed

text \<open>The bytes of the output file begin with the UTF-8 form of the header.\<close>

lemma merge_body_decodes:
  assumes "open_w fs output_path = Inr fs1" and "py_len ro = Inr n"
    and "site_ok lib (JObj si)"
  shows "\<exists>pre rest. output_file (files (merge_body lib now fs n ro (JObj si))) = Some (pre @ rest)
           \<and> utf8_decode pre = Some (header_text lib now si)"
proof -
  from merge_body_output [OF assms] obtain rest
    where "output_file (files (merge_body lib now fs n ro (JObj si)))
             = Some (utf8_encode (header_text lib now si @ rest))" ..
  then have "output_file (files (merge_body lib now fs n ro (JObj si)))
             = Some (utf8_encode (header_text lib now si) @ utf8_encode rest)"
    by (simp add: utf8_encode_append)
  moreover have "utf8_decode (utf8_encode (header_text lib now si)) = Some (header_text lib now si)"
    by (rule utf8_roundtrip) (rule encodable_header [OF assms(3)])
  ultimately show ?thesis by blast
qed

subsection \<open>A regular file in the place of the content directory\<close>

lemma below_regular_file:
  assumes "map_of fs content_dir = Some (File b)" and "relative f"
  shows "\<not> os_path_exists fs (os_path_join content_dir f)"
proof -
  have j: "os_path_join content_dir f = content_dir @ 47 # f"
    using assms(2) by (auto simp: os_path_join_def relative_def content_dir_def asc_def)
  have s: "split_path (content_dir @ 47 # f) = content_dir # split_path f"
    by (rule split_path_slash) (simp add: content_dir_def asc_def)
  obtain c cs where c: "split_path f = c # cs"
    using split_path_not_Nil [of f] by (cases "split_path f") auto
  have "walk (Dir fs) [] (content_dir # split_path f) = Inl NotADirectoryError"
    using assms(1) c by (simp add: content_dir_def asc_def)
  then show ?thesis
    by (simp add: os_path_exists_def resolve_def j s)
qed

lemma spec_missing_text: "rule_text @ missing_heading f @ missing_note = spec_missing f"
  by (simp add: rule_text_def missing_heading_def missing_note_def spec_missing_def nl2_def
        asc_def)

lemma encodable_spec_missing: "encodable f \<Longrightarrow> encodable (spec_missing f)"
  by (simp add: spec_missing_def encodable_Cons scalar_def)

lemma encodable_concat: "list_all encodable xs \<Longrightarrow> encodable (concat xs)"
  by (induction xs) simp_all

lemma merge_loop_all_missing:
  assumes "\<forall>st. \<forall>f \<in> set names.
      \<not> os_path_exists (disk_view lib fs st) (os_path_join content_dir f)"
    and "list_all encodable names"
  shows "fst (merge_loop lib fs len i (map JStr names) st) = None
     \<and> out (snd (merge_loop lib fs len i (map JStr names) st))
         = out st @ concat (map spec_missing names)
     \<and> missing_count (snd (merge_loop lib fs len i (map JStr names) st))
         = missing_count st + length names
     \<and> success_count (snd (merge_loop lib fs len i (map JStr names) st)) = success_count st
     \<and> error_count (snd (merge_loop lib fs len i (map JStr names) st)) = error_count st"
  using assms
proof (induction names arbitrary: i st)
  case Nil
  show ?case by simp
next
  case (Cons f names)
  from Cons.prems have m: "\<not> os_path_exists (disk_view lib fs st) (os_path_join content_dir f)"
    and r: "\<forall>st. \<forall>f \<in> set names.
      \<not> os_path_exists (disk_view lib fs st) (os_path_join content_dir f)"
    and e: "encodable f" and es: "list_all encodable names"
    by simp_all
  let ?st1 = "st\<lparr>out := out st @ rule_text @ missing_heading f @ missing_note,
               stdout := stdout st @ [Processing i len f, FileMissingSkip],
               missing_count := missing_count st + 1\<rparr>"
  have "merge_loop lib fs len i (map JStr (f # names)) st
          = merge_loop lib fs len (Suc i) (map JStr names) ?st1"
    by (simp add: process_entry_missing [OF e m])
  with Cons.IH [OF r es, of "Suc i" ?st1] show ?case
    by (simp add: spec_missing_text)
qed

lemma flat_content: "map_of flat_fs content_dir = Some (File (ascii_bytes ''x''))"
  by (simp add: flat_fs_def content_dir_def asc_def)

lemma flat_load_config: "load_config demo_lib flat_fs = Inr demo_doc"
  by (simp add: load_config_def fs_eval flat_fs_def demo_lib_def parser_of_def demo_text_def)

lemma flat_open_w: "open_w flat_fs output_path = Inr (flat_fs @ [(output_path, File [])])"
  by (simp add: open_w_def flat_fs_def fs_eval)

text \<open>
  With \<open>content\<close> a regular file, a chapter that is an absolute path is not looked up
  below \<open>content\<close>: the sample chapter \<open>/config.json\<close> names the configuration file,
  which exists and is read.
\<close>

lemma abs_run:
  "merge_markdown_files abs_lib now abs_fs =
     \<lparr>outcome = Completed 1 0 0,
      files = put_file (abs_fs @ [(output_path, File [])]) output_path
                (utf8_encode (header_text abs_lib now []
                   @ rule_text @ provenance 1 (asc ''/config.json'') @ asc abs_text @ nl2)),
      printed = [StartMerge 1, Processing 1 1 (asc ''/config.json''), Success,
                 Summary 1 1 0 0]\<rparr>"
proof -
  let ?fs1 = "abs_fs @ [(output_path, File [])]"
  have e: "os_path_exists abs_fs content_dir"
    by (simp add: fs_eval abs_fs_def)
  have l: "load_config abs_lib abs_fs = Inr abs_doc"
    by (simp add: load_config_def fs_eval abs_fs_def abs_lib_def demo_lib_def parser_of_def
          abs_text_def)
  have ro: "dict_get [(asc ''chapters'', JArr [JStr (asc ''/config.json'')])] (asc ''chapters'')
              (JArr []) = JArr [JStr (asc ''/config.json'')]"
    by (simp add: dict_get_def)
  have si: "dict_get [(asc ''chapters'', JArr [JStr (asc ''/config.json'')])] (asc ''siteInfo'')
              (JObj []) = JObj []"
    by (simp add: dict_get_def asc_def)
  have o: "open_w abs_fs output_path = Inr ?fs1"
    by (simp add: open_w_def abs_fs_def fs_eval)
  have v: "disk_view abs_lib ?fs1 st = ?fs1" for st
    by (simp add: disk_view_def abs_lib_def demo_lib_def abs_fs_def output_path_def asc_def)
  have x: "os_path_exists ?fs1 (os_path_join content_dir (asc ''/config.json''))"
    by (simp add: fs_eval abs_fs_def)
  have u: "read_text (gbk_tbl abs_lib) ?fs1 Utf8 (os_path_join content_dir (asc ''/config.json''))
             = Inr (asc abs_text)"
    by (simp add: fs_eval abs_fs_def abs_text_def)
  have s: "strip (asc abs_text) = asc abs_text"
    by (simp add: strip_def abs_text_def asc_def py_isspace_def)
  show ?thesis
    by (simp add: merge_markdown_files_def e l abs_doc_def ro si Let_def merge_body_def o
          write_header_ok [OF site_ok_empty] v process_entry_read [OF x u] s)
qed

subsection \<open>Which runs raise\<close>


lemma exit_status_simps [simp]:
  "exit_status \<lparr>outcome = Aborted, files = fs, printed = p\<rparr> = 0"
  "exit_status \<lparr>outcome = Completed s m e, files = fs, printed = p\<rparr> = 0"
  "exit_status \<lparr>outcome = Raised x, files = fs, printed = p\<rparr> = 1"
  by (simp_all add: exit_status_def)










text \<open>
  A \<open>siteInfo\<close> that is \<open>null\<close> has no \<open>get\<close>, and a title that is a lone
  surrogate cannot be written: either way the first \<open>write\<close> of the header raises and
  the output file, already created, stays empty.
\<close>

lemma null_site_run:
  "merge_markdown_files null_site_lib now null_site_fs =
     \<lparr>outcome = Raised AttributeError,
      files = put_file (null_site_fs @ [(output_path, File [])]) output_path [],
      printed = [StartMerge 1]\<rparr>"
proof -
  have e: "os_path_exists null_site_fs content_dir"
    by (simp add: fs_eval null_site_fs_def)
  have l: "load_config null_site_lib null_site_fs = Inr null_site_doc"
    by (simp add: load_config_def fs_eval null_site_fs_def null_site_lib_def demo_lib_def
          parser_of_def null_site_text_def)
  let ?cfg = "[(asc ''chapters'', JArr [JStr (asc ''a.md'')]), (asc ''siteInfo'', JNull)]"
  have ro: "dict_get ?cfg (asc ''chapters'') (JArr []) = JArr [JStr (asc ''a.md'')]"
    by (simp add: dict_get_def)
  have si: "dict_get ?cfg (asc ''siteInfo'') (JObj []) = JNull"
    by (simp add: dict_get_def asc_def)
  have o: "open_w null_site_fs output_path = Inr (null_site_fs @ [(output_path, File [])])"
    by (simp add: open_w_def null_site_fs_def fs_eval)
  show ?thesis
    by (simp add: merge_markdown_files_def e l null_site_doc_def ro si Let_def merge_body_def o
          write_header_def utf8_encode_def)
qed

lemma lone_title_run:
  "merge_markdown_files lone_title_lib now lone_title_fs =
     \<lparr>outcome = Raised UnicodeEncodeError,
      files = put_file (lone_title_fs @ [(output_path, File [])]) output_path [],
      printed = [StartMerge 1]\<rparr>"
proof -
  have e: "os_path_exists lone_title_fs content_dir"
    by (simp add: fs_eval lone_title_fs_def)
  have l: "load_config lone_title_lib lone_title_fs = Inr lone_title_doc"
    by (simp add: load_config_def fs_eval lone_title_fs_def lone_title_lib_def demo_lib_def
          parser_of_def lone_title_text_def)
  let ?cfg = "[(asc ''chapters'', JArr [JStr (asc ''a.md'')]),
               (asc ''siteInfo'', JObj [(asc ''title'', JStr [0xD800])])]"
  have ro: "dict_get ?cfg (asc ''chapters'') (JArr []) = JArr [JStr (asc ''a.md'')]"
    by (simp add: dict_get_def)
  have si: "dict_get ?cfg (asc ''siteInfo'') (JObj []) = JObj [(asc ''title'', JStr [0xD800])]"
    by (simp add: dict_get_def asc_def)
  have o: "open_w lone_title_fs output_path = Inr (lone_title_fs @ [(output_path, File [])])"
    by (simp add: open_w_def lone_title_fs_def fs_eval)
  have w: "write_header lone_title_lib now (JObj [(asc ''title'', JStr [0xD800])])
             = (Some UnicodeEncodeError, [])"
    by (simp add: write_header_def header_lines_def dict_get_def fmt_def encodable_Cons
          scalar_def)
  show ?thesis
    by (simp add: merge_markdown_files_def e l lone_title_doc_def ro si Let_def merge_body_def o
          w utf8_encode_def)
qed

subsection \<open>What reading does to the text of a file\<close>




lemma lone_run:
  "merge_markdown_files lone_lib now lone_fs =
     \<lparr>outcome = Completed 0 0 1,
      files = put_file (lone_fs @ [(output_path, File [])]) output_path
                (utf8_encode (header_text lone_lib now [])),
      printed = [StartMerge 1, Processing 1 1 (asc ''a.md''), EncodingErrorRetry,
                 ReadFailed UnicodeDecodeError, Summary 1 0 0 1]\<rparr>"
proof -
  let ?fs1 = "lone_fs @ [(output_path, File [])]"
  have e: "os_path_exists lone_fs content_dir"
    by (simp add: fs_eval lone_fs_def)
  have l: "load_config lone_lib lone_fs = Inr lone_doc"
    by (simp add: load_config_def fs_eval lone_fs_def lone_lib_def demo_lib_def parser_of_def
          lone_text_def)
  have ro: "dict_get [(asc ''chapters'', JArr [JStr (asc ''a.md'')])] (asc ''chapters'') (JArr [])
              = JArr [JStr (asc ''a.md'')]"
    by (simp add: dict_get_def)
  have si: "dict_get [(asc ''chapters'', JArr [JStr (asc ''a.md'')])] (asc ''siteInfo'') (JObj [])
              = JObj []"
    by (simp add: dict_get_def asc_def)
  have o: "open_w lone_fs output_path = Inr ?fs1"
    by (simp add: open_w_def lone_fs_def fs_eval)
  have v: "disk_view lone_lib ?fs1 st = ?fs1" for st
    by (simp add: disk_view_def lone_lib_def demo_lib_def lone_fs_def output_path_def asc_def)
  have x: "os_path_exists ?fs1 (os_path_join content_dir (asc ''a.md''))"
    by (simp add: fs_eval lone_fs_def)
  have u: "read_text (gbk_tbl lone_lib) ?fs1 Utf8 (os_path_join content_dir (asc ''a.md''))
             = Inl UnicodeDecodeError"
    by (simp add: fs_eval lone_fs_def)
  have g: "read_text (gbk_tbl lone_lib) ?fs1 Gbk (os_path_join content_dir (asc ''a.md''))
             = Inl UnicodeDecodeError"
    by (simp add: fs_eval lone_fs_def)
  have c: "encodable (exn_str lone_lib UnicodeDecodeError
             (os_path_join content_dir (asc ''a.md'')))"
    by (simp add: lone_lib_def demo_lib_def)
  show ?thesis
    by (simp add: merge_markdown_files_def e l lone_doc_def ro si Let_def merge_body_def o
          write_header_ok [OF site_ok_empty] v process_entry_gbk_fails [OF x u g c])
qed

section \<open>The claims\<close>

text \<open>
  C8. Every iteration of the loop over the chapters that completes adds one to exactly
  one of the three counters and leaves the other two as they were. So a loop that
  runs to its end over \<open>k\<close> entries has raised the sum of the counters by \<open>k\<close>, and
  when the run completes, succeeded + missing + errored is the length of the chapters
  list.
\<close>

theorem counters_account_for_every_chapter:
  "(process_entry lib fs len i x st = (None, st1) \<longrightarrow>
      (success_count st1 = success_count st + 1 \<and> missing_count st1 = missing_count st
         \<and> error_count st1 = error_count st)
      \<or> (success_count st1 = success_count st \<and> missing_count st1 = missing_count st + 1
         \<and> error_count st1 = error_count st)
      \<or> (success_count st1 = success_count st \<and> missing_count st1 = missing_count st
         \<and> error_count st1 = error_count st + 1))
   \<and> (merge_loop lib fs len j xs sta = (None, st2) \<longrightarrow>
        success_count st2 + missing_count st2 + error_count st2
          = success_count sta + missing_count sta + error_count sta + length xs)
   \<and> (outcome (merge_markdown_files lib now fs0) = Completed s m e \<longrightarrow>
        (\<exists>cfg n. load_config lib fs0 = Inr (JObj cfg)
           \<and> py_len (dict_get cfg (asc ''chapters'') (JArr [])) = Inr n \<and> s + m + e = n))"
proof (intro conjI impI)
  assume "process_entry lib fs len i x st = (None, st1)"
  then show "(success_count st1 = success_count st + 1 \<and> missing_count st1 = missing_count st
         \<and> error_count st1 = error_count st)
      \<or> (success_count st1 = success_count st \<and> missing_count st1 = missing_count st + 1
         \<and> error_count st1 = error_count st)
      \<or> (success_count st1 = success_count st \<and> missing_count st1 = missing_count st
         \<and> error_count st1 = error_count st + 1)"
    by (rule process_entry_one_counter)
next
  assume "merge_loop lib fs len j xs sta = (None, st2)"
  then show "success_count st2 + missing_count st2 + error_count st2
          = success_count sta + missing_count sta + error_count sta + length xs"
    by (rule merge_loop_sum)
next
  assume c: "outcome (merge_markdown_files lib now fs0) = Completed s m e"
  then obtain cfg where cfg: "load_config lib fs0 = Inr (JObj cfg)"
    by (auto simp: merge_markdown_files_def Let_def split: if_splits sum.splits json.splits)
  let ?ro = "dict_get cfg (asc ''chapters'') (JArr [])"
  let ?si = "dict_get cfg (asc ''siteInfo'') (JObj [])"
  from c cfg obtain n where n: "py_len ?ro = Inr n"
    and b: "outcome (merge_body lib now fs0 n ?ro ?si) = Completed s m e"
    by (auto simp: merge_markdown_files_def Let_def split: if_splits sum.splits)
  from b obtain fs1 hdr ys st' where it: "py_iter ?ro = Inr ys"
    and lp: "merge_loop lib fs1 n 1 ys
        \<lparr>out = hdr, stdout = [StartMerge n], success_count = 0, missing_count = 0,
         error_count = 0\<rparr> = (None, st')"
    and r: "s = success_count st'" "m = missing_count st'" "e = error_count st'"
    by (auto simp: merge_body_def split: sum.splits prod.splits option.splits)
  from merge_loop_sum [OF lp] py_iter_len [OF it n] r have "s + m + e = n" by simp
  with cfg n show "\<exists>cfg n. load_config lib fs0 = Inr (JObj cfg)
           \<and> py_len (dict_get cfg (asc ''chapters'') (JArr [])) = Inr n \<and> s + m + e = n"
    by blast
qed

theorem counters_account_for_every_chapter_witness:
  "outcome (merge_markdown_files demo_lib demo_now demo_fs) = Completed 2 1 2
   \<and> load_config demo_lib demo_fs = Inr demo_doc
   \<and> py_len (JArr demo_chapters) = Inr 5
   \<and> (2::nat) + 1 + 2 = 5
   \<and> fst (process_entry demo_lib demo_fs1 5 2 (JStr (asc ''gone.md'')) st0) = None
   \<and> missing_count (snd (process_entry demo_lib demo_fs1 5 2 (JStr (asc ''gone.md'')) st0)) = 1
   \<and> fst (merge_loop demo_lib demo_fs1 5 1 demo_chapters st0) = None
   \<and> success_count (snd (merge_loop demo_lib demo_fs1 5 1 demo_chapters st0))
       + missing_count (snd (merge_loop demo_lib demo_fs1 5 1 demo_chapters st0))
       + error_count (snd (merge_loop demo_lib demo_fs1 5 1 demo_chapters st0)) = 5"
proof -
  let ?p = "process_entry demo_lib demo_fs1 5 2 (JStr (asc ''gone.md'')) st0"
  let ?l = "merge_loop demo_lib demo_fs1 5 1 demo_chapters st0"
  have p: "?p = (None, snd ?p)" by (simp add: demo_entry2)
  have l: "?l = (None, snd ?l)" by (simp add: demo_loop)
  note t = counters_account_for_every_chapter
    [of demo_lib demo_fs1 5 2 "JStr (asc ''gone.md'')" st0 "snd ?p" 1 demo_chapters st0
        "snd ?l" demo_now demo_fs 2 1 2]
  have n: "length demo_chapters = 5" by (simp add: demo_chapters_def)
  from t l n have s: "success_count (snd ?l) + missing_count (snd ?l) + error_count (snd ?l) = 5"
    by (simp add: st0_def)
  have m: "missing_count (snd ?p) = 1" by (simp add: demo_entry2 st0_def)
  have f: "fst ?p = None" "fst ?l = None" using p l by (metis fst_conv)+
  from f s m n show ?thesis
    by (simp add: demo_outcome demo_load_config)
qed

text \<open>
  C6, as the specification states it, fails for a chapter whose name cannot be printed.
  The progress line of an iteration is printed before the file is looked for, outside
  every \<open>try\<close>. The chapter \<open>"\ud800"\<close> (a lone surrogate, which JSON allows) names no
  file; its progress line raises \<open>UnicodeEncodeError\<close>, and the iteration ends with
  the exception: no placeholder is written and no counter moves.
\<close>

theorem unprintable_name_gets_no_placeholder:
  "\<not> os_path_exists demo_fs1 (os_path_join content_dir [0xD800])
   \<and> process_entry demo_lib demo_fs1 5 1 (JStr [0xD800]) st0 = (Some UnicodeEncodeError, st0)
   \<and> out st0 = [] \<and> missing_count st0 = 0"
  by (simp add: process_entry_unencodable fs_eval st0_def)

text \<open>
  C6, amended. A chapter whose name holds no lone surrogate and whose file does not exist
  below the content directory gets a missing placeholder appended to the output: the rule
  \<open>---\<close> between blank lines, the heading \<open>##\<close> with the warning sign and the file
  name, and the note in italics. The progress line and the notice of the skip are
  printed, the missing counter grows by exactly one, the success and error counters keep
  their values, and the iteration raises nothing.
\<close>

theorem missing_file_placeholder:
  assumes "encodable filename"
    and "\<not> os_path_exists fs (os_path_join content_dir filename)"
    and "process_entry lib fs len i (JStr filename) st = (r, st')"
  shows "r = None
     \<and> out st' = out st @ spec_missing filename
     \<and> stdout st' = stdout st @ [Processing i len filename, FileMissingSkip]
     \<and> missing_count st' = missing_count st + 1
     \<and> success_count st' = success_count st
     \<and> error_count st' = error_count st"
  using assms(3)
  by (simp add: process_entry_missing [OF assms(1,2)] spec_missing_text [symmetric], auto)

theorem missing_file_placeholder_witness:
  "encodable (asc ''gone.md'')
   \<and> \<not> os_path_exists demo_fs1 (os_path_join content_dir (asc ''gone.md''))
   \<and> fst (process_entry demo_lib demo_fs1 5 2 (JStr (asc ''gone.md'')) st0) = None
   \<and> out (snd (process_entry demo_lib demo_fs1 5 2 (JStr (asc ''gone.md'')) st0))
       = [10, 10, 45, 45, 45, 10, 10, 35, 35, 32, 0x26A0, 0xFE0F, 32]
         @ asc ''gone.md'' @ [10, 10, 42, 0x6B64, 0x6587, 0x4EF6, 0x7F3A, 0x5931, 42, 10, 10]
   \<and> stdout (snd (process_entry demo_lib demo_fs1 5 2 (JStr (asc ''gone.md'')) st0))
       = [Processing 2 5 (asc ''gone.md''), FileMissingSkip]
   \<and> missing_count (snd (process_entry demo_lib demo_fs1 5 2 (JStr (asc ''gone.md'')) st0)) = 1
   \<and> success_count (snd (process_entry demo_lib demo_fs1 5 2 (JStr (asc ''gone.md'')) st0)) = 0
   \<and> error_count (snd (process_entry demo_lib demo_fs1 5 2 (JStr (asc ''gone.md'')) st0)) = 0"
proof -
  have t: "spec_missing (asc ''gone.md'')
         = [10, 10, 45, 45, 45, 10, 10, 35, 35, 32, 0x26A0, 0xFE0F, 32]
           @ asc ''gone.md'' @ [10, 10, 42, 0x6B64, 0x6587, 0x4EF6, 0x7F3A, 0x5931, 42, 10, 10]"
    by (simp add: spec_missing_def asc_def)
  from missing_file_placeholder [OF encodable_asc demo_missing, of demo_lib 5 2 st0
      "fst (process_entry demo_lib demo_fs1 5 2 (JStr (asc ''gone.md'')) st0)"
      "snd (process_entry demo_lib demo_fs1 5 2 (JStr (asc ''gone.md'')) st0)"]
    demo_missing t
  show ?thesis by (simp add: st0_def)
qed

text \<open>
  C5. When the content directory exists, the configuration loads as an object and the
  \<open>chapters\<close> taken from it (the empty list when the key is absent) is the empty
  list, the run prints the warning and nothing else, returns, and leaves the file
  system as it was: no output file is created or modified.
\<close>

theorem empty_chapters_abort:
  assumes "os_path_exists fs content_dir"
    and "load_config lib fs = Inr (JObj cfg)"
    and "dict_get cfg (asc ''chapters'') (JArr []) = JArr []"
  shows "merge_markdown_files lib now fs
           = \<lparr>outcome = Aborted, files = fs, printed = [WarnChaptersEmpty]\<rparr>"
  using assms by (simp add: merge_markdown_files_def)

theorem empty_chapters_abort_witness:
  "os_path_exists empty_fs content_dir
   \<and> load_config empty_lib empty_fs = Inr empty_doc
   \<and> merge_markdown_files empty_lib demo_now empty_fs
       = \<lparr>outcome = Aborted, files = empty_fs, printed = [WarnChaptersEmpty]\<rparr>
   \<and> output_file (files (merge_markdown_files empty_lib demo_now empty_fs)) = None"
proof -
  have g: "dict_get [(asc ''chapters'', JArr [])] (asc ''chapters'') (JArr []) = JArr []"
    by (simp add: dict_get_def)
  have o: "output_file empty_fs = None"
    by (simp add: output_file_def empty_fs_def output_path_def asc_def)
  from empty_chapters_abort [OF empty_content_exists empty_load_config [unfolded empty_doc_def] g,
      of demo_now] o
  show ?thesis by (simp add: empty_content_exists empty_load_config)
qed




text \<open>
  C7, as the specification states it, fails: a run can get past set-up and leave an output
  file that does not begin with the header. \<open>site_info.get\<close> is called on whatever
  \<open>siteInfo\<close> is, and the text is encoded as it is written. With \<open>siteInfo\<close>
  \<open>null\<close> the first line of the header raises \<open>AttributeError\<close>; with a title that
  is a lone surrogate it raises \<open>UnicodeEncodeError\<close>. In both sample runs the
  start of the merge has been announced, the output file has been created, and it stays
  empty.
\<close>

theorem header_is_not_always_written:
  "merge_markdown_files null_site_lib demo_now null_site_fs =
     \<lparr>outcome = Raised AttributeError,
      files = put_file (null_site_fs @ [(output_path, File [])]) output_path [],
      printed = [StartMerge 1]\<rparr>
   \<and> output_file (files (merge_markdown_files null_site_lib demo_now null_site_fs)) = Some []
   \<and> merge_markdown_files lone_title_lib demo_now lone_title_fs =
     \<lparr>outcome = Raised UnicodeEncodeError,
      files = put_file (lone_title_fs @ [(output_path, File [])]) output_path [],
      printed = [StartMerge 1]\<rparr>
   \<and> output_file (files (merge_markdown_files lone_title_lib demo_now lone_title_fs)) = Some []"
  by (simp add: null_site_run lone_title_run output_file_put_file)

text \<open>
  C7, amended. When the run gets past set-up (the content directory exists, the
  configuration is an object, \<open>chapters\<close> is not empty and has a length), the output
  file can be opened, \<open>siteInfo\<close> is an object (or absent) whose \<open>title\<close>,
  \<open>subtitle\<close>, \<open>other\<close>, \<open>author\<close> and \<open>url\<close> are each absent or a string without
  lone surrogates, and the clock shows a year of four digits, then the output file begins
  with bytes that are the UTF-8 form of the header, in this order: the title or
  \<open>Untitled\<close>, the subtitle, the \<open>other\<close> line only when the key is present and not
  empty, the author or \<open>Unknown\<close>, the URL, the time stamp \<open>YYYY-MM-DD HH:MM:SS\<close>,
  and a rule of 80 \<open>=\<close>. This holds also when a later chapter raises.
\<close>

theorem output_begins_with_header:
  assumes "os_path_exists fs content_dir"
    and "load_config lib fs = Inr (JObj cfg)"
    and "truthy (dict_get cfg (asc ''chapters'') (JArr []))"
    and "py_len (dict_get cfg (asc ''chapters'') (JArr [])) = Inr n"
    and "open_w fs output_path = Inr fs1"
    and "dict_get cfg (asc ''siteInfo'') (JObj []) = JObj si"
    and "site_fields_ok si"
    and "valid_clock now"
  shows "\<exists>pre rest. output_file (files (merge_markdown_files lib now fs)) = Some (pre @ rest)
     \<and> utf8_decode pre
         = Some (spec_header (str_field si (asc ''title'')) (str_field si (asc ''subtitle''))
                   (str_field si (asc ''other'')) (str_field si (asc ''author''))
                   (str_field si (asc ''url'')) (spec_stamp now))"
proof -
  have "merge_markdown_files lib now fs
          = merge_body lib now fs n (dict_get cfg (asc ''chapters'') (JArr [])) (JObj si)"
    using assms(1-4,6) by (simp add: merge_markdown_files_def Let_def)
  with merge_body_decodes [where lib = lib and now = now, OF assms(5) assms(4)
      site_fields_site_ok [OF assms(7)]]
  show ?thesis
    by (simp add: header_text_spec [OF assms(7)] strftime_shape [OF assms(8)])
qed

theorem output_begins_with_header_witness:
  "os_path_exists demo_fs content_dir
   \<and> load_config demo_lib demo_fs = Inr demo_doc
   \<and> open_w demo_fs output_path = Inr demo_fs1
   \<and> site_fields_ok demo_site
   \<and> valid_clock demo_now
   \<and> (\<exists>pre rest. output_file (files (merge_markdown_files demo_lib demo_now demo_fs))
           = Some (pre @ rest)
        \<and> utf8_decode pre
           = Some (asc ''# Notes'' @ [10, 10] @ asc ''****'' @ [10, 10]
                @ [0x4F5C, 0x8005] @ asc '': Unknown'' @ [10, 10]
                @ [0x7F51, 0x7AD9] @ asc '': '' @ [10, 10]
                @ [0x751F, 0x6210, 0x65F6, 0x95F4] @ asc '': 2024-01-02 03:04:05'' @ [10, 10]
                @ replicate 80 61 @ [10, 10]))"
proof -
  let ?cfg = "[(asc ''chapters'', JArr demo_chapters), (asc ''siteInfo'', JObj demo_site)]"
  have ro: "dict_get ?cfg (asc ''chapters'') (JArr []) = JArr demo_chapters"
    by (simp add: dict_get_def)
  have si: "dict_get ?cfg (asc ''siteInfo'') (JObj []) = JObj demo_site"
    by (simp add: dict_get_def asc_def)
  have t: "truthy (dict_get ?cfg (asc ''chapters'') (JArr []))"
    and n: "py_len (dict_get ?cfg (asc ''chapters'') (JArr [])) = Inr 5"
    by (simp_all only: ro) (simp_all add: demo_chapters_def)
  have s: "site_fields_ok demo_site"
    by (simp add: site_fields_ok_def field_ok_def demo_site_def asc_def encodable_def scalar_def)
  have c: "valid_clock demo_now"
    by (simp add: valid_clock_def demo_now_def)
  have stamp: "spec_stamp demo_now = asc ''2024-01-02 03:04:05''"
    by (simp add: spec_stamp_def digit_def demo_now_def asc_def)
  have f: "str_field demo_site (asc ''title'') = Some (asc ''Notes'')"
    "str_field demo_site (asc ''subtitle'') = None"
    "str_field demo_site (asc ''other'') = Some []"
    "str_field demo_site (asc ''author'') = None"
    "str_field demo_site (asc ''url'') = None"
    by (simp_all add: str_field_def demo_site_def asc_def)
  have e: "spec_header (Some (asc ''Notes'')) None (Some []) None None
             (asc ''2024-01-02 03:04:05'')
           = asc ''# Notes'' @ [10, 10] @ asc ''****'' @ [10, 10]
              @ [0x4F5C, 0x8005] @ asc '': Unknown'' @ [10, 10]
              @ [0x7F51, 0x7AD9] @ asc '': '' @ [10, 10]
              @ [0x751F, 0x6210, 0x65F6, 0x95F4] @ asc '': 2024-01-02 03:04:05'' @ [10, 10]
              @ replicate 80 61 @ [10, 10]"
    by (simp add: spec_header_def asc_def)
  note th = output_begins_with_header [OF demo_content_exists
      demo_load_config [unfolded demo_doc_def] t n demo_open_w si s c]
  from th [unfolded f stamp e] demo_content_exists demo_load_config demo_open_w s c
  show ?thesis
    by (simp only: simp_thms)
qed

text \<open>
  C9, as the specification states it, fails for a chapter that is an absolute path:
  \<open>os.path.join\<close> then drops \<open>content\<close>, and the chapter is looked up where it
  says. In the sample, \<open>content\<close> is a regular file and the only chapter is
  \<open>/config.json\<close>, which exists: the run does not abort, and the chapter is read and
  counted as a success, not as missing.
\<close>

theorem absolute_chapter_is_read:
  "map_of abs_fs content_dir = Some (File (ascii_bytes ''x''))
   \<and> load_config abs_lib abs_fs = Inr abs_doc
   \<and> outcome (merge_markdown_files abs_lib demo_now abs_fs) = Completed 1 0 0
   \<and> printed (merge_markdown_files abs_lib demo_now abs_fs)
       = [StartMerge 1, Processing 1 1 (asc ''/config.json''), Success, Summary 1 1 0 0]"
proof -
  have c: "map_of abs_fs content_dir = Some (File (ascii_bytes ''x''))"
    by (simp add: abs_fs_def content_dir_def asc_def)
  have l: "load_config abs_lib abs_fs = Inr abs_doc"
    by (simp add: load_config_def fs_eval abs_fs_def abs_lib_def demo_lib_def parser_of_def
          abs_text_def)
  from c l show ?thesis by (simp add: abs_run)
qed

text \<open>
  C9, amended. The first check of the run asks only whether the path \<open>content\<close>
  exists. When \<open>content\<close> is a regular file of the working directory, the check
  passes; with a configuration whose \<open>chapters\<close> is a non-empty list of relative file
  names without lone surrogates and whose \<open>siteInfo\<close> is an object (or absent) with
  fields that are absent or strings without lone surrogates, and an output file that can
  be opened, the run completes, every chapter is counted as missing, and the output file
  is the UTF-8 form of the header followed by one missing placeholder for each chapter,
  in order.
\<close>

theorem content_as_regular_file:
  assumes "map_of fs content_dir = Some (File b)"
    and "load_config lib fs = Inr (JObj cfg)"
    and "dict_get cfg (asc ''chapters'') (JArr []) = JArr (map JStr names)"
    and "names \<noteq> []"
    and "list_all relative names"
    and "list_all encodable names"
    and "dict_get cfg (asc ''siteInfo'') (JObj []) = JObj si"
    and "site_fields_ok si"
    and "open_w fs output_path = Inr fs1"
    and "valid_clock now"
  shows "os_path_exists fs content_dir
     \<and> outcome (merge_markdown_files lib now fs) = Completed 0 (length names) 0
     \<and> (\<exists>bs. output_file (files (merge_markdown_files lib now fs)) = Some bs
          \<and> utf8_decode bs
              = Some (spec_header (str_field si (asc ''title'')) (str_field si (asc ''subtitle''))
                        (str_field si (asc ''other'')) (str_field si (asc ''author''))
                        (str_field si (asc ''url'')) (spec_stamp now)
                      @ concat (map spec_missing names)))"
proof -
  have ex: "os_path_exists fs content_dir"
    using assms(1) by (simp add: os_path_exists_def resolve_content)
  from assms(9) open_w_cases [of fs output_path]
  have o: "open_w fs output_path = Inr (put_file fs output_path [])"
    by auto
  have ok: "site_ok lib (JObj si)"
    by (rule site_fields_site_ok [OF assms(8)])
  have c1: "map_of (disk_view lib (put_file fs output_path []) st) content_dir = Some (File b)"
    for st
    using assms(1) by (simp add: disk_view_def map_of_put_file names_differ)
  have miss: "\<forall>st. \<forall>f \<in> set names.
      \<not> os_path_exists (disk_view lib (put_file fs output_path []) st)
          (os_path_join content_dir f)"
    using assms(5) below_regular_file [OF c1] by (auto simp: list_all_iff)
  let ?st = "\<lparr>out = header_text lib now si, stdout = [StartMerge (length names)],
              success_count = 0, missing_count = 0, error_count = 0\<rparr>"
  let ?l = "merge_loop lib (put_file fs output_path []) (length names) 1 (map JStr names) ?st"
  let ?t = "header_text lib now si @ concat (map spec_missing names)"
  from merge_loop_all_missing [OF miss assms(6), of "length names" 1 ?st]
  have l: "fst ?l = None" "out (snd ?l) = ?t"
    "missing_count (snd ?l) = length names" "success_count (snd ?l) = 0"
    "error_count (snd ?l) = 0"
    by simp_all
  obtain st' where st': "?l = (None, st')"
    using l(1) by (cases ?l) auto
  have "merge_markdown_files lib now fs
          = merge_body lib now fs (length names) (JArr (map JStr names)) (JObj si)"
    using ex assms(2,3,4,7) by (simp add: merge_markdown_files_def Let_def)
  with o st' l have r: "outcome (merge_markdown_files lib now fs) = Completed 0 (length names) 0"
    "output_file (files (merge_markdown_files lib now fs)) = Some (utf8_encode ?t)"
    by (simp_all add: merge_body_def write_header_ok [OF ok] output_file_put_file put_file_twice)
  have "list_all encodable (map spec_missing names)"
    using assms(6) by (simp add: list_all_iff encodable_spec_missing)
  then have "encodable ?t"
    by (simp add: encodable_header [OF ok] encodable_concat)
  then have "utf8_decode (utf8_encode ?t) = Some ?t"
    by (rule utf8_roundtrip)
  with ex r show ?thesis
    by (simp add: header_text_spec [OF assms(8)] strftime_shape [OF assms(10)])
qed

theorem content_as_regular_file_witness:
  "map_of flat_fs content_dir = Some (File (ascii_bytes ''x''))
   \<and> load_config demo_lib flat_fs = Inr demo_doc
   \<and> os_path_exists flat_fs content_dir
   \<and> outcome (merge_markdown_files demo_lib demo_now flat_fs) = Completed 0 5 0
   \<and> (\<exists>bs. output_file (files (merge_markdown_files demo_lib demo_now flat_fs)) = Some bs
        \<and> utf8_decode bs
            = Some (asc ''# Notes'' @ [10, 10] @ asc ''****'' @ [10, 10]
                @ [0x4F5C, 0x8005] @ asc '': Unknown'' @ [10, 10]
                @ [0x7F51, 0x7AD9] @ asc '': '' @ [10, 10]
                @ [0x751F, 0x6210, 0x65F6, 0x95F4] @ asc '': 2024-01-02 03:04:05'' @ [10, 10]
                @ replicate 80 61 @ [10, 10]
                @ spec_missing (asc ''a.md'') @ spec_missing (asc ''gone.md'')
                @ spec_missing (asc ''sub'') @ spec_missing (asc ''g.md'')
                @ spec_missing (asc ''bad.bin'')))"
proof -
  let ?cfg = "[(asc ''chapters'', JArr demo_chapters), (asc ''siteInfo'', JObj demo_site)]"
  let ?names = "[asc ''a.md'', asc ''gone.md'', asc ''sub'', asc ''g.md'', asc ''bad.bin'']"
  have ro: "dict_get ?cfg (asc ''chapters'') (JArr []) = JArr (map JStr ?names)"
    by (simp add: dict_get_def demo_chapters_def)
  have si: "dict_get ?cfg (asc ''siteInfo'') (JObj []) = JObj demo_site"
    by (simp add: dict_get_def asc_def)
  have ne: "?names \<noteq> []" by simp
  have rel: "list_all relative ?names"
    by (simp add: relative_def asc_def)
  have enc: "list_all encodable ?names"
    by simp
  have s: "site_fields_ok demo_site"
    by (simp add: site_fields_ok_def field_ok_def demo_site_def asc_def encodable_def scalar_def)
  have c: "valid_clock demo_now"
    by (simp add: valid_clock_def demo_now_def)
  have stamp: "spec_stamp demo_now = asc ''2024-01-02 03:04:05''"
    by (simp add: spec_stamp_def digit_def demo_now_def asc_def)
  have f: "str_field demo_site (asc ''title'') = Some (asc ''Notes'')"
    "str_field demo_site (asc ''subtitle'') = None"
    "str_field demo_site (asc ''other'') = Some []"
    "str_field demo_site (asc ''author'') = None"
    "str_field demo_site (asc ''url'') = None"
    by (simp_all add: str_field_def demo_site_def asc_def)
  have e: "spec_header (Some (asc ''Notes'')) None (Some []) None None
             (asc ''2024-01-02 03:04:05'')
           = asc ''# Notes'' @ [10, 10] @ asc ''****'' @ [10, 10]
              @ [0x4F5C, 0x8005] @ asc '': Unknown'' @ [10, 10]
              @ [0x7F51, 0x7AD9] @ asc '': '' @ [10, 10]
              @ [0x751F, 0x6210, 0x65F6, 0x95F4] @ asc '': 2024-01-02 03:04:05'' @ [10, 10]
              @ replicate 80 61 @ [10, 10]"
    by (simp add: spec_header_def asc_def)
  have m: "concat (map spec_missing ?names)
             = spec_missing (asc ''a.md'') @ spec_missing (asc ''gone.md'')
               @ spec_missing (asc ''sub'') @ spec_missing (asc ''g.md'')
               @ spec_missing (asc ''bad.bin'')"
    by simp
  have len: "length ?names = 5" by simp
  note th = content_as_regular_file [OF flat_content flat_load_config [unfolded demo_doc_def] ro ne
      rel enc si s flat_open_w c]
  from th [unfolded f stamp e m len append_assoc] flat_content flat_load_config
  show ?thesis
    by (simp only: simp_thms)
qed







text \<open>
  C1. The claim does not hold of the code. With the single chapter \<open>a.md\<close>, whose file
  is the one byte \<open>FF\<close>, both decoders fail; the handler of the second failure counts
  an error and writes nothing, where the handler of every other read error writes an
  error placeholder. The run completes with one error, and the output file is the
  header alone: a manifest of one entry, and no section.
\<close>

theorem undecodable_file_leaves_no_section:
  "outcome (merge_markdown_files lone_lib now lone_fs) = Completed 0 0 1
   \<and> output_file (files (merge_markdown_files lone_lib now lone_fs))
       = Some (utf8_encode (header_text lone_lib now []))
   \<and> py_len (JArr [JStr (asc ''a.md'')]) = Inr 1"
  by (simp add: lone_run output_file_put_file)

text \<open>
  C10. The claim does not hold of the code for every path that exists and cannot be read
  as text. The sample file \<open>bad.bin\<close> exists and is the one byte \<open>FF\<close>, which
  neither codec decodes: the iteration adds one to the error counter and leaves the
  missing counter, and it writes nothing to the output. For a path whose reading fails
  in another way, a directory for one, the placeholder is written
  (\<open>process_entry_error\<close>, and the sample chapter \<open>sub\<close> in \<open>demo_entry3\<close>).
\<close>

theorem undecodable_file_gets_no_placeholder:
  "os_path_exists demo_fs1 (os_path_join content_dir (asc ''bad.bin''))
   \<and> read_text (gbk_tbl demo_lib) demo_fs1 Utf8 (os_path_join content_dir (asc ''bad.bin''))
       = Inl UnicodeDecodeError
   \<and> read_text (gbk_tbl demo_lib) demo_fs1 Gbk (os_path_join content_dir (asc ''bad.bin''))
       = Inl UnicodeDecodeError
   \<and> process_entry demo_lib demo_fs1 5 5 (JStr (asc ''bad.bin'')) st0
       = (None, st0\<lparr>stdout := [Processing 5 5 (asc ''bad.bin''), EncodingErrorRetry,
                                 ReadFailed UnicodeDecodeError],
                      error_count := 1\<rparr>)
   \<and> out (snd (process_entry demo_lib demo_fs1 5 5 (JStr (asc ''bad.bin'')) st0)) = out st0"
  by (simp add: demo_bad_exists demo_bad_utf8 demo_bad_gbk demo_entry5 st0_def)

end
